theory Spec2Isabelle
  imports Main "HOL-Library.Char_ord" "HOL-Library.List_Lexorder" "HOL-Library.Multiset"
begin

section \<open>Go string helpers\<close>

text \<open>
  Go strings are byte strings; they are modelled as \<^typ>\<open>string\<close> (a list of 8-bit
  characters). The functions below follow the package \<open>strings\<close> of the Go standard
  library on the arguments the program passes to them.
\<close>

definition HasPrefix :: "string \<Rightarrow> string \<Rightarrow> bool" where
  "HasPrefix s p = (take (length p) s = p)"

definition HasSuffix :: "string \<Rightarrow> string \<Rightarrow> bool" where
  "HasSuffix s p = (length p \<le> length s \<and> drop (length s - length p) s = p)"

definition TrimPrefix :: "string \<Rightarrow> string \<Rightarrow> string" where
  "TrimPrefix s p = (if HasPrefix s p then drop (length p) s else s)"

fun Contains :: "string \<Rightarrow> string \<Rightarrow> bool" where
  "Contains [] sub = (sub = [])"
| "Contains (c # s) sub = (HasPrefix (c # s) sub \<or> Contains s sub)"

text \<open>\<open>strings.Split(s, sep)\<close> for a separator of one byte.\<close>

fun Split :: "string \<Rightarrow> char \<Rightarrow> string list" where
  "Split [] sep = [[]]"
| "Split (c # s) sep =
     (if c = sep then [] # Split s sep
      else (case Split s sep of [] \<Rightarrow> [[c]] | w # ws \<Rightarrow> (c # w) # ws))"

fun Join :: "string list \<Rightarrow> string \<Rightarrow> string" where
  "Join [] sep = []"
| "Join [x] sep = x"
| "Join (x # y # ys) sep = x @ sep @ Join (y # ys) sep"

section \<open>The manifest's data model\<close>

text \<open>
  \<open>manifest.Dependency\<close>. The field \<open>UseLatestCommit\<close> is read by
  \<open>determineRefWithValidation\<close> (package fetch); the struct declaration that carries
  it is not among the sources, so the field is added here with the type its use requires.
\<close>

record Dependency =
  Git :: string
  Version :: string
  Branch :: string
  Tag :: string
  Rev :: string
  RootFile :: string
  UseLatestCommit :: bool

section \<open>Cache keys\<close>

text \<open>\<open>generateCacheKey\<close> of package fetch.\<close>

definition generateCacheKey :: "string \<Rightarrow> string \<Rightarrow> Dependency \<Rightarrow> string" where
  "generateCacheKey owner repo dep =
     (let parts = [owner, repo];
          parts' =
            (if Rev dep \<noteq> [] then parts @ [''rev'', Rev dep]
             else if Tag dep \<noteq> [] then parts @ [''tag'', Tag dep]
             else if Branch dep \<noteq> [] then parts @ [''branch'', Branch dep]
             else if Version dep \<noteq> [] then parts @ [''version'', Version dep]
             else parts @ [''latest''])
      in Join parts' ''-'')"


section \<open>Errors and the outside world\<close>

text \<open>
  A Go \<open>error\<close> is modelled by its message. \<open>Errorf_w p e\<close> is
  \<open>fmt.Errorf(p + "%w", e)\<close>: the message of \<open>e\<close> behind the prefix \<open>p\<close>.
\<close>

datatype error = Error string

fun Error_msg :: "error \<Rightarrow> string" where
  "Error_msg (Error m) = m"

definition Errorf_w :: "string \<Rightarrow> error \<Rightarrow> error" where
  "Errorf_w p e = Error (p @ Error_msg e)"

text \<open>\<open>github.Release\<close>; its field \<open>Name\<close> is written \<open>Name_r\<close>.\<close>

record Release =
  TagName :: string
  Name_r :: string
  Draft :: bool
  Prerelease :: bool

text \<open>The part of an \<open>http.Response\<close> the client reads: the status code and the
  result of \<open>io.ReadAll(resp.Body)\<close>.\<close>

record Response =
  StatusCode :: int
  Body :: "error + string"

text \<open>
  Everything the program asks of the outside world goes through this record: one field
  per library or subprocess call, giving the call's result as a function of its
  arguments.
  \<^item> \<open>git_Output args\<close>: \<open>exec.Command("git", args...).Output()\<close>;
  \<^item> \<open>git_CombinedOutput args\<close>: \<open>CombinedOutput()\<close>, the captured text and the error, if any;
  \<^item> \<open>git_Run dir args\<close>: \<open>Run()\<close> with \<open>cmd.Dir = dir\<close> (\<open>[]\<close> when unset);
  \<^item> \<open>makeRequest url\<close>: the GET request of the GitHub client;
  \<^item> \<open>json_Release\<close>, \<open>json_TagNames\<close>: \<open>json.Unmarshal\<close> into a \<open>Release\<close>, and into
    the list of tag records, of which only the names are kept;
  \<^item> \<open>url_Parse\<close>: \<open>url.Parse\<close>, of which the host and the path are read;
  \<^item> \<open>ssh_Submatch\<close>: \<open>FindStringSubmatch\<close> of the SSH locator pattern, the two groups;
  \<^item> \<open>os_Stat_IsNotExist p\<close>: \<open>os.IsNotExist(err)\<close> for the error of \<open>os.Stat(p)\<close>;
  \<^item> \<open>os_RemoveAll\<close>, \<open>os_MkdirAll\<close>, \<open>os_WriteFile\<close>: the error of the call, if any;
  \<^item> \<open>fs_tree p\<close>: what \<open>filepath.Walk\<close> finds at the path \<open>p\<close> when the checksum is taken;
  \<^item> \<open>sha256_hex b\<close>: the SHA-256 digest of the bytes \<open>b\<close>, printed with \<open>%x\<close>;
  \<^item> \<open>IsHexString\<close>, \<open>GenerateCacheKey\<close>: the two functions of package \<open>utils\<close> that the
    fetcher calls; their source is not available, so they are parameters as well.

  A file tree is a file with its content (or the error that reading it gives), a
  directory with its named entries in the order in which the directory lists them, or a
  node at which \<open>Walk\<close> reports an error to its callback (\<open>Lstat\<close> failed, or the
  directory could not be listed).
\<close>

datatype fs_node = File "error + string" | Dir "(string \<times> fs_node) list" | Failing error

record env =
  git_Output :: "string list \<Rightarrow> error + string"
  git_CombinedOutput :: "string list \<Rightarrow> string \<times> error option"
  git_Run :: "string \<Rightarrow> string list \<Rightarrow> error option"
  makeRequest :: "string \<Rightarrow> error + Response"
  json_Release :: "string \<Rightarrow> error + Release"
  json_TagNames :: "string \<Rightarrow> error + string list"
  url_Parse :: "string \<Rightarrow> error + (string \<times> string)"
  ssh_Submatch :: "string \<Rightarrow> (string \<times> string) option"
  os_Stat_IsNotExist :: "string \<Rightarrow> bool"
  os_RemoveAll :: "string \<Rightarrow> error option"
  os_MkdirAll :: "string \<Rightarrow> error option"
  os_WriteFile :: "string \<Rightarrow> error option"
  fs_tree :: "string \<Rightarrow> fs_node"
  sha256_hex :: "string \<Rightarrow> string"
  IsHexString :: "string \<Rightarrow> bool"
  GenerateCacheKey :: "string \<Rightarrow> string \<Rightarrow> Dependency \<Rightarrow> string"

section \<open>Decimal output, white space\<close>

text \<open>The verb \<open>%d\<close> of \<open>fmt\<close>.\<close>

fun digits_of :: "nat \<Rightarrow> string" where
  "digits_of n =
     (if n < 10 then [char_of (48 + n)]
      else digits_of (n div 10) @ [char_of (48 + n mod 10)])"

declare digits_of.simps [simp del]

definition itoa :: "int \<Rightarrow> string" where
  "itoa i = (if i < 0 then CHR ''-'' # digits_of (nat (- i)) else digits_of (nat i))"

text \<open>
  White space as \<open>strings.TrimSpace\<close> and \<open>strings.Fields\<close> see it in ASCII text: tab,
  line feed, vertical tab, form feed, carriage return and space. (For text with bytes
  beyond ASCII the library decodes UTF-8 and also accepts the Unicode spaces; the
  output of \<open>git ls-remote\<close> that the program splits is ASCII.)
\<close>

definition isSpace :: "char \<Rightarrow> bool" where
  "isSpace c = (c = CHR 0x09 \<or> c = CHR 0x0A \<or> c = CHR 0x0B \<or> c = CHR 0x0C \<or> c = CHR 0x0D \<or> c = CHR '' '')"

definition TrimSpace :: "string \<Rightarrow> string" where
  "TrimSpace s = rev (dropWhile isSpace (rev (dropWhile isSpace s)))"

fun Fields :: "string \<Rightarrow> string list" where
  "Fields [] = []"
| "Fields (c # s) =
     (if isSpace c then Fields s
      else (case s of
              [] \<Rightarrow> [[c]]
            | d # _ \<Rightarrow>
                if isSpace d then [c] # Fields s
                else (case Fields s of [] \<Rightarrow> [[c]] | w # ws \<Rightarrow> (c # w) # ws)))"

section \<open>The GitHub client and the git probes\<close>

text \<open>\<open>(*Client).GetLatestRelease\<close>.\<close>

definition GetLatestRelease :: "env \<Rightarrow> string \<Rightarrow> string \<Rightarrow> error + Release" where
  "GetLatestRelease w owner repo =
     (let url = ''https://api.github.com/repos/'' @ owner @ ''/'' @ repo @ ''/releases/latest''
      in case makeRequest w url of
           Inl err \<Rightarrow> Inl (Errorf_w ''failed to fetch latest release: '' err)
         | Inr resp \<Rightarrow>
             if StatusCode resp = 404 then Inl (Error ''no releases found'')
             else if StatusCode resp \<noteq> 200
               then Inl (Error (''GitHub API error: '' @ itoa (StatusCode resp)))
             else (case Body resp of
                     Inl err \<Rightarrow> Inl (Errorf_w ''failed to read response: '' err)
                   | Inr body \<Rightarrow>
                       (case json_Release w body of
                          Inl err \<Rightarrow> Inl (Errorf_w ''failed to parse response: '' err)
                        | Inr release \<Rightarrow> Inr release)))"

definition repoURL_of :: "string \<Rightarrow> string \<Rightarrow> string" where
  "repoURL_of owner repo = ''https://github.com/'' @ owner @ ''/'' @ repo @ ''.git''"

text \<open>\<open>(*Fetcher).checkTagExists\<close>.\<close>

definition checkTagExists :: "env \<Rightarrow> string \<Rightarrow> string \<Rightarrow> string \<Rightarrow> error + bool" where
  "checkTagExists w owner repo tag =
     (case git_Output w [''ls-remote'', ''--tags'', repoURL_of owner repo, tag] of
        Inl err \<Rightarrow> Inl err
      | Inr output \<Rightarrow> Inr (Contains output tag))"

text \<open>\<open>(*Fetcher).getLatestReleaseTag\<close>.\<close>

definition getLatestReleaseTag :: "env \<Rightarrow> string \<Rightarrow> string \<Rightarrow> error + string" where
  "getLatestReleaseTag w owner repo =
     (case GetLatestRelease w owner repo of
        Inl err \<Rightarrow> Inl err
      | Inr release \<Rightarrow> Inr (TagName release))"

text \<open>\<open>(*Fetcher).getLatestCommitSHA\<close>: the first field of what \<open>git ls-remote\<close> prints for
  \<open>refs/heads/main\<close>, else for \<open>refs/heads/master\<close>.\<close>

definition getLatestCommitSHA_master :: "env \<Rightarrow> string \<Rightarrow> string \<Rightarrow> error + string" where
  "getLatestCommitSHA_master w owner repo =
     (case git_Output w [''ls-remote'', repoURL_of owner repo, ''refs/heads/master''] of
        Inl err \<Rightarrow> Inl (Errorf_w ''failed to get latest commit: '' err)
      | Inr output \<Rightarrow>
          (case Fields output of
             [] \<Rightarrow> Inl (Error ''no commit found in master branch'')
           | p # _ \<Rightarrow> Inr p))"

definition getLatestCommitSHA :: "env \<Rightarrow> string \<Rightarrow> string \<Rightarrow> error + string" where
  "getLatestCommitSHA w owner repo =
     (case git_Output w [''ls-remote'', repoURL_of owner repo, ''refs/heads/main''] of
        Inr output \<Rightarrow>
          if length (TrimSpace output) > 0
          then (case Fields output of
                  p # _ \<Rightarrow> Inr p
                | [] \<Rightarrow> getLatestCommitSHA_master w owner repo)
          else getLatestCommitSHA_master w owner repo
      | Inl err \<Rightarrow> getLatestCommitSHA_master w owner repo)"

section \<open>Reference resolution\<close>

text \<open>The loop of \<open>determineRefWithValidation\<close> over the candidate tags: a probe that
  fails is skipped, the first tag reported present is returned.\<close>

fun probeTags :: "env \<Rightarrow> string \<Rightarrow> string \<Rightarrow> string list \<Rightarrow> string option" where
  "probeTags w owner repo [] = None"
| "probeTags w owner repo (tag # tags) =
     (case checkTagExists w owner repo tag of
        Inl err \<Rightarrow> probeTags w owner repo tags
      | Inr exists \<Rightarrow> if exists then Some tag else probeTags w owner repo tags)"

definition bareVersion :: "string \<Rightarrow> string" where
  "bareVersion v = TrimPrefix (TrimPrefix (TrimPrefix v ''^'') ''~'') ''=''"

text \<open>
  \<open>(*Fetcher).determineRefWithValidation\<close>: the retrieval reference, the reported
  version and the commit id (empty when none is known).
\<close>

definition determineRefWithValidation ::
  "env \<Rightarrow> string \<Rightarrow> string \<Rightarrow> Dependency \<Rightarrow> error + (string \<times> string \<times> string)" where
  "determineRefWithValidation w owner repo dep =
     (if Rev dep \<noteq> [] then Inr (Rev dep, Rev dep, Rev dep)
      else if Tag dep \<noteq> [] then Inr (Tag dep, Tag dep, [])
      else if Branch dep \<noteq> [] then Inr (Branch dep, Branch dep, [])
      else if UseLatestCommit dep then
        (case getLatestCommitSHA w owner repo of
           Inl err \<Rightarrow> Inl (Errorf_w ''failed to get latest commit: '' err)
         | Inr commitSHA \<Rightarrow> Inr (commitSHA, commitSHA, commitSHA))
      else if Version dep \<noteq> [] then
        (if Version dep = ''latest'' then
           (case getLatestReleaseTag w owner repo of
              Inl err \<Rightarrow> Inl (Errorf_w ''failed to get latest release: '' err)
            | Inr latestTag \<Rightarrow> Inr (latestTag, latestTag, []))
         else
           (let version = bareVersion (Version dep);
                possibleTags = [version, ''v'' @ version]
            in case probeTags w owner repo possibleTags of
                 Some tag \<Rightarrow> Inr (tag, Version dep, [])
               | None \<Rightarrow>
                   Inl (Error (''no matching tag found for version '' @ Version dep
                          @ '' (tried: '' @ Join possibleTags '', '' @ '')''))))
      else
        (case getLatestReleaseTag w owner repo of
           Inr latestTag \<Rightarrow>
             if latestTag \<noteq> [] then Inr (latestTag, latestTag, [])
             else (case getLatestCommitSHA w owner repo of
                     Inl err \<Rightarrow> Inl (Errorf_w ''failed to get latest commit: '' err)
                   | Inr commitSHA \<Rightarrow> Inr (commitSHA, commitSHA, commitSHA))
         | Inl err \<Rightarrow>
             (case getLatestCommitSHA w owner repo of
                Inl err \<Rightarrow> Inl (Errorf_w ''failed to get latest commit: '' err)
              | Inr commitSHA \<Rightarrow> Inr (commitSHA, commitSHA, commitSHA))))"

section \<open>Semantic versions\<close>

text \<open>\<open>semver.Version\<close> and \<open>semver.Constraint\<close> (its field \<open>Version\<close> is written
  \<open>Version_c\<close>). A Go \<open>int\<close> has 64 bits.\<close>

record Version =
  Major :: int
  Minor :: int
  Patch :: int
  Prerelease_v :: string
  Build :: string

record Constraint =
  Operator :: string
  Version_c :: Version

definition isDigit :: "char \<Rightarrow> bool" where
  "isDigit c = (CHR ''0'' \<le> c \<and> c \<le> CHR ''9'')"

text \<open>The character class \<open>[0-9A-Za-z\-\.]\<close> of the version pattern.\<close>

definition isIdentChar :: "char \<Rightarrow> bool" where
  "isIdentChar c =
     (isDigit c \<or> (CHR ''A'' \<le> c \<and> c \<le> CHR ''Z'') \<or> (CHR ''a'' \<le> c \<and> c \<le> CHR ''z'')
      \<or> c = CHR ''-'' \<or> c = CHR ''.'')"

text \<open>\<open>strconv.Atoi\<close> on a string of decimal digits, its error dropped as the caller
  drops it: the value, or the largest \<open>int\<close> when the value does not fit.\<close>

definition Atoi :: "string \<Rightarrow> int" where
  "Atoi ds =
     (let v = foldl (\<lambda>a c. 10 * a + (int (of_char c) - 48)) 0 ds
      in if v > 9223372036854775807 then 9223372036854775807 else v)"

text \<open>
  Matching against
  \<open>^v?(\d+)\.(\d+)\.(\d+)(?:-([0-9A-Za-z\-\.]+))?(?:\+([0-9A-Za-z\-\.]+))?$\<close>.
  Every group is followed by a character outside its class or by the end of the text,
  so each group is the longest run of its class and the match, if any, is unique.
\<close>

definition matchNumber :: "string \<Rightarrow> (string \<times> string) option" where
  "matchNumber s =
     (let ds = takeWhile isDigit s in if ds = [] then None else Some (ds, dropWhile isDigit s))"

definition matchDot :: "string \<Rightarrow> string option" where
  "matchDot s = (case s of c # r \<Rightarrow> if c = CHR ''.'' then Some r else None | [] \<Rightarrow> None)"

text \<open>An optional group \<open>(?:\<open>m\<close>([0-9A-Za-z\-\.]+))?\<close> opened by the mark \<open>m\<close>: the group's
  text (empty when the group takes no part) and the rest; \<open>None\<close> when the mark is
  there and no character of the class follows it.\<close>

definition matchLabel :: "char \<Rightarrow> string \<Rightarrow> (string \<times> string) option" where
  "matchLabel m s =
     (case s of
        c # r \<Rightarrow>
          if c = m then
            (let l = takeWhile isIdentChar r
             in if l = [] then None else Some (l, dropWhile isIdentChar r))
          else Some ([], s)
      | [] \<Rightarrow> Some ([], s))"

definition semverMatch :: "string \<Rightarrow> (string \<times> string \<times> string \<times> string \<times> string) option" where
  "semverMatch version =
     (let s0 = (case version of c # r \<Rightarrow> if c = CHR ''v'' then r else version | [] \<Rightarrow> version)
      in case matchNumber s0 of None \<Rightarrow> None
         | Some (major, s1) \<Rightarrow>
      (case matchDot s1 of None \<Rightarrow> None
         | Some s2 \<Rightarrow>
      (case matchNumber s2 of None \<Rightarrow> None
         | Some (minor, s3) \<Rightarrow>
      (case matchDot s3 of None \<Rightarrow> None
         | Some s4 \<Rightarrow>
      (case matchNumber s4 of None \<Rightarrow> None
         | Some (patch, s5) \<Rightarrow>
      (case matchLabel (CHR ''-'') s5 of None \<Rightarrow> None
         | Some (pre, s6) \<Rightarrow>
      (case matchLabel (CHR ''+'') s6 of None \<Rightarrow> None
         | Some (build, s7) \<Rightarrow>
             if s7 = [] then Some (major, minor, patch, pre, build) else None)))))))"

text \<open>\<open>semver.ParseVersion\<close>.\<close>

definition ParseVersion :: "string \<Rightarrow> error + Version" where
  "ParseVersion version =
     (case semverMatch version of
        None \<Rightarrow> Inl (Error (''invalid semantic version: '' @ version))
      | Some (major, minor, patch, pre, build) \<Rightarrow>
          Inr \<lparr>Major = Atoi major, Minor = Atoi minor, Patch = Atoi patch,
               Prerelease_v = pre, Build = build\<rparr>)"

text \<open>\<open>Version.String\<close>.\<close>

definition String_v :: "Version \<Rightarrow> string" where
  "String_v v =
     (let version = itoa (Major v) @ ''.'' @ itoa (Minor v) @ ''.'' @ itoa (Patch v);
          version1 = (if Prerelease_v v \<noteq> [] then version @ ''-'' @ Prerelease_v v else version)
      in if Build v \<noteq> [] then version1 @ ''+'' @ Build v else version1)"

text \<open>\<open>Version.Compare\<close>. Go compares strings byte by byte, as the order on
  \<^typ>\<open>string\<close> does here.\<close>

definition Compare :: "Version \<Rightarrow> Version \<Rightarrow> int" where
  "Compare v other =
     (if Major v \<noteq> Major other then (if Major v < Major other then - 1 else 1)
      else if Minor v \<noteq> Minor other then (if Minor v < Minor other then - 1 else 1)
      else if Patch v \<noteq> Patch other then (if Patch v < Patch other then - 1 else 1)
      else if Prerelease_v v = [] \<and> Prerelease_v other \<noteq> [] then 1
      else if Prerelease_v v \<noteq> [] \<and> Prerelease_v other = [] then - 1
      else if Prerelease_v v \<noteq> Prerelease_v other
        then (if Prerelease_v v < Prerelease_v other then - 1 else 1)
      else 0)"

text \<open>\<open>semver.ParseConstraint\<close>. When the version does not parse, Go returns the
  constraint together with the error; only the error is kept here, since every caller
  drops the constraint in that case.\<close>

definition constraintOf :: "string \<Rightarrow> string \<Rightarrow> error + Constraint" where
  "constraintOf op text =
     (case ParseVersion text of
        Inl err \<Rightarrow> Inl err
      | Inr version \<Rightarrow> Inr \<lparr>Operator = op, Version_c = version\<rparr>)"

definition ParseConstraint :: "string \<Rightarrow> error + Constraint" where
  "ParseConstraint constraint0 =
     (let constraint = TrimSpace constraint0
      in if HasPrefix constraint ''^'' then constraintOf ''^'' (drop 1 constraint)
         else if HasPrefix constraint ''~'' then constraintOf ''~'' (drop 1 constraint)
         else if HasPrefix constraint ''>='' then constraintOf ''>='' (drop 2 constraint)
         else if HasPrefix constraint ''<='' then constraintOf ''<='' (drop 2 constraint)
         else if HasPrefix constraint ''>'' then constraintOf ''>'' (drop 1 constraint)
         else if HasPrefix constraint ''<'' then constraintOf ''<'' (drop 1 constraint)
         else if HasPrefix constraint ''='' then constraintOf ''='' (drop 1 constraint)
         else constraintOf ''='' constraint)"

text \<open>\<open>Constraint.Satisfies\<close>.\<close>

definition Satisfies :: "Constraint \<Rightarrow> Version \<Rightarrow> bool" where
  "Satisfies c version =
     (if Operator c = ''^'' then
        (if Major version \<noteq> Major (Version_c c) then False
         else Compare version (Version_c c) \<ge> 0)
      else if Operator c = ''~'' then
        (if Major version \<noteq> Major (Version_c c) \<or> Minor version \<noteq> Minor (Version_c c) then False
         else Compare version (Version_c c) \<ge> 0)
      else if Operator c = ''>='' then Compare version (Version_c c) \<ge> 0
      else if Operator c = ''<='' then Compare version (Version_c c) \<le> 0
      else if Operator c = ''>'' then Compare version (Version_c c) > 0
      else if Operator c = ''<'' then Compare version (Version_c c) < 0
      else if Operator c = ''='' then Compare version (Version_c c) = 0
      else False)"

text \<open>\<open>semver.FindBestMatch\<close>: the first of the greatest candidates.\<close>

fun bestOf :: "Version \<Rightarrow> Version list \<Rightarrow> Version" where
  "bestOf best [] = best"
| "bestOf best (candidate # cs) =
     (if Compare candidate best > 0 then bestOf candidate cs else bestOf best cs)"

definition FindBestMatch :: "Constraint \<Rightarrow> Version list \<Rightarrow> error + Version" where
  "FindBestMatch constraint versions =
     (case filter (Satisfies constraint) versions of
        [] \<Rightarrow> Inl (Error (''no version satisfies constraint '' @ Operator constraint
                      @ String_v (Version_c constraint)))
      | c # cs \<Rightarrow> Inr (bestOf c cs))"

section \<open>The resolver\<close>

text \<open>\<open>(*Client).GetTags\<close> and \<open>(*Client).GetAvailableVersions\<close>: the tags that parse as
  versions, in the order of the reply.\<close>

definition GetTags :: "env \<Rightarrow> string \<Rightarrow> string \<Rightarrow> error + string list" where
  "GetTags w owner repo =
     (let url = ''https://api.github.com/repos/'' @ owner @ ''/'' @ repo @ ''/tags''
      in case makeRequest w url of
           Inl err \<Rightarrow> Inl (Errorf_w ''failed to fetch tags: '' err)
         | Inr resp \<Rightarrow>
             if StatusCode resp \<noteq> 200
               then Inl (Error (''GitHub API error: '' @ itoa (StatusCode resp)))
             else (case Body resp of
                     Inl err \<Rightarrow> Inl (Errorf_w ''failed to read response: '' err)
                   | Inr body \<Rightarrow>
                       (case json_TagNames w body of
                          Inl err \<Rightarrow> Inl (Errorf_w ''failed to parse response: '' err)
                        | Inr tagNames \<Rightarrow> Inr tagNames)))"

fun parsedVersions :: "string list \<Rightarrow> Version list" where
  "parsedVersions [] = []"
| "parsedVersions (tag # tags) =
     (case ParseVersion tag of
        Inr version \<Rightarrow> version # parsedVersions tags
      | Inl err \<Rightarrow> parsedVersions tags)"

definition GetAvailableVersions :: "env \<Rightarrow> string \<Rightarrow> string \<Rightarrow> error + Version list" where
  "GetAvailableVersions w owner repo =
     (case GetTags w owner repo of
        Inl err \<Rightarrow> Inl err
      | Inr tags \<Rightarrow> Inr (parsedVersions tags))"

text \<open>\<open>(*Resolver).resolveVersion\<close>.\<close>

definition resolveVersion :: "env \<Rightarrow> string \<Rightarrow> string \<Rightarrow> Dependency \<Rightarrow> error + string" where
  "resolveVersion w owner repo dep =
     (if Rev dep \<noteq> [] then Inr (Rev dep)
      else if Tag dep \<noteq> [] then Inr (Tag dep)
      else if Branch dep \<noteq> [] then Inr (Branch dep)
      else if Version dep \<noteq> [] then
        (case ParseConstraint (Version dep) of
           Inl err \<Rightarrow>
             Inl (Error (''invalid version constraint '' @ [CHR 0x27] @ Version dep @ [CHR 0x27]
                    @ '': '' @ Error_msg err))
         | Inr constraint \<Rightarrow>
             (case GetAvailableVersions w owner repo of
                Inl err \<Rightarrow> Inl (Errorf_w ''failed to get available versions: '' err)
              | Inr versions \<Rightarrow>
                  if length versions = 0
                    then Inl (Error (''no semantic versions found for '' @ owner @ ''/'' @ repo))
                  else (case FindBestMatch constraint versions of
                          Inl err \<Rightarrow>
                            Inl (Error (''no version satisfies constraint '' @ [CHR 0x27]
                                   @ Version dep @ [CHR 0x27] @ '': '' @ Error_msg err))
                        | Inr bestMatch \<Rightarrow> Inr (String_v bestMatch))))
      else (case GetLatestRelease w owner repo of
              Inr release \<Rightarrow> Inr (TagName release)
            | Inl err \<Rightarrow> Inr ''main''))"

section \<open>Paths\<close>

text \<open>\<open>filepath.Clean\<close>, \<open>filepath.Join\<close>, \<open>filepath.Dir\<close> and \<open>filepath.Base\<close> for the
  separator \<open>/\<close>. \<open>Clean\<close> keeps a stack of the elements written so far, the last one
  first: an empty element and \<open>.\<close> are dropped, \<open>..\<close> removes the element before it, or
  is kept in front of a path that is not rooted.\<close>

definition cleanStep :: "bool \<Rightarrow> string list \<Rightarrow> string \<Rightarrow> string list" where
  "cleanStep rooted st e =
     (if e = [] \<or> e = ''.'' then st
      else if e = ''..'' then
        (case st of
           el # rest \<Rightarrow> if el \<noteq> ''..'' then rest else (if rooted then st else e # st)
         | [] \<Rightarrow> if rooted then st else [e])
      else e # st)"

definition Clean :: "string \<Rightarrow> string" where
  "Clean path =
     (case path of
        [] \<Rightarrow> ''.''
      | c # _ \<Rightarrow>
          (let rooted = (c = CHR ''/'');
               st = foldl (cleanStep rooted) [] (Split path (CHR ''/''));
               out = (if rooted then ''/'' else []) @ Join (rev st) ''/''
           in if out = [] then ''.'' else out))"

definition filepath_Join :: "string list \<Rightarrow> string" where
  "filepath_Join elem =
     (case dropWhile (\<lambda>e. e = []) elem of
        [] \<Rightarrow> []
      | es \<Rightarrow> Clean (Join es ''/''))"

definition filepath_Dir :: "string \<Rightarrow> string" where
  "filepath_Dir path = Clean (rev (dropWhile (\<lambda>c. c \<noteq> CHR ''/'') (rev path)))"

definition filepath_Base :: "string \<Rightarrow> string" where
  "filepath_Base path =
     (if path = [] then ''.''
      else (let p1 = rev (dropWhile (\<lambda>c. c = CHR ''/'') (rev path));
                p2 = rev (takeWhile (\<lambda>c. c \<noteq> CHR ''/'') (rev p1))
            in if p2 = [] then ''/'' else p2))"

text \<open>\<open>strings.Trim(s, "/")\<close>.\<close>

definition TrimSlashes :: "string \<Rightarrow> string" where
  "TrimSlashes s =
     rev (dropWhile (\<lambda>c. c = CHR ''/'') (rev (dropWhile (\<lambda>c. c = CHR ''/'') s)))"

section \<open>The fetch cache\<close>

text \<open>\<open>cache.Entry\<close> (its field \<open>Version\<close> is written \<open>Version_e\<close>) and \<open>cache.Cache\<close>.
  The Go struct has the fields \<open>cacheDir\<close> and \<open>entries\<close>; \<open>index_json\<close> stands for the
  mapping that the last successful \<open>save\<close> wrote to the file \<open>index.json\<close> of the cache
  directory, which nothing else writes.\<close>

record Entry =
  Path :: string
  Checksum :: string
  Version_e :: string
  CommitSHA :: string

record Cache =
  cacheDir :: string
  entries :: "string \<rightharpoonup> Entry"
  index_json :: "string \<rightharpoonup> Entry"

definition Entry_zero :: Entry where
  "Entry_zero = \<lparr>Path = [], Checksum = [], Version_e = [], CommitSHA = []\<rparr>"

definition ensureCacheDir :: "env \<Rightarrow> Cache \<Rightarrow> error option" where
  "ensureCacheDir w c = os_MkdirAll w (cacheDir c)"

text \<open>\<open>(*Cache).save\<close>: a failure is logged and the call returns. (Encoding a map from
  strings to entries of strings cannot fail.)\<close>

definition save :: "env \<Rightarrow> Cache \<Rightarrow> Cache" where
  "save w c =
     (case ensureCacheDir w c of
        Some err \<Rightarrow> c
      | None \<Rightarrow>
          (case os_WriteFile w (filepath_Join [cacheDir c, ''index.json'']) of
             Some err \<Rightarrow> c
           | None \<Rightarrow> c\<lparr>index_json := entries c\<rparr>))"

text \<open>\<open>(*Cache).Get\<close>: the entry and whether it is present, and the cache afterwards.\<close>

definition Get :: "env \<Rightarrow> Cache \<Rightarrow> string \<Rightarrow> (Entry \<times> bool) \<times> Cache" where
  "Get w c key =
     (case entries c key of
        None \<Rightarrow> ((Entry_zero, False), c)
      | Some entry \<Rightarrow>
          if os_Stat_IsNotExist w (Path entry)
          then ((Entry_zero, False), save w (c\<lparr>entries := (entries c)(key := None)\<rparr>))
          else ((entry, True), c))"

text \<open>\<open>(*Cache).Set\<close> and \<open>(*Cache).Delete\<close>.\<close>

definition Set :: "env \<Rightarrow> Cache \<Rightarrow> string \<Rightarrow> Entry \<Rightarrow> Cache" where
  "Set w c key entry = save w (c\<lparr>entries := (entries c)(key \<mapsto> entry)\<rparr>)"

definition Delete :: "env \<Rightarrow> Cache \<Rightarrow> string \<Rightarrow> Cache" where
  "Delete w c key = save w (c\<lparr>entries := (entries c)(key := None)\<rparr>)"

section \<open>The tree checksum\<close>

text \<open>\<open>integrity.CalculateFileChecksum\<close> on a file with the given content.\<close>

definition CalculateFileChecksum :: "env \<Rightarrow> error + string \<Rightarrow> error + string" where
  "CalculateFileChecksum w content =
     (case content of Inl err \<Rightarrow> Inl err | Inr bytes \<Rightarrow> Inr (sha256_hex w bytes))"

text \<open>
  \<open>filepath.Walk\<close>: the calls of the callback, in order. Each carries the path built by
  \<open>filepath.Join\<close> from the root as given, the names that lead from the root to the
  node, and the node. The entries of a directory are visited in the order of their names.
  The callback of \<open>CalculateDirectoryChecksum\<close> never asks to skip a directory, so every
  node is visited until a call returns an error.
\<close>

fun Walk :: "string \<Rightarrow> string list \<Rightarrow> fs_node \<Rightarrow> (string \<times> string list \<times> fs_node) list" where
  "Walk path rel (File content) = [(path, rel, File content)]"
| "Walk path rel (Failing err) = [(path, rel, Failing err)]"
| "Walk path rel (Dir es) =
     (path, rel, Dir es)
       # concat (map (\<lambda>(name, t). Walk (filepath_Join [path, name]) (rel @ [name]) t)
                  (sort_key fst es))"

fun contains :: "string list \<Rightarrow> string \<Rightarrow> bool" where
  "contains [] item = False"
| "contains (s # slice) item = (if s = item then True else contains slice item)"

text \<open>The callback, run over the visits: the files it appends, each with its content
  for the later \<open>CalculateFileChecksum\<close>, or the first error.\<close>

fun collectFiles ::
  "(string \<times> string list \<times> fs_node) list \<Rightarrow> error + (string \<times> string list \<times> (error + string)) list" where
  "collectFiles [] = Inr []"
| "collectFiles ((path, rel, node) # vs) =
     (case node of
        Failing err \<Rightarrow> Inl err
      | Dir es \<Rightarrow> collectFiles vs
      | File content \<Rightarrow>
          if filepath_Base path = ''.git'' then collectFiles vs
          else if contains (Split path (CHR ''/'')) ''.git'' then collectFiles vs
          else (case collectFiles vs of
                  Inl err \<Rightarrow> Inl err
                | Inr files \<Rightarrow> Inr ((path, rel, content) # files)))"

text \<open>\<open>filepath.Rel(dirPath, filePath)\<close> for a path that \<open>Walk\<close> reached from \<open>dirPath\<close>
  through the names \<open>rel\<close>: those names, or \<open>.\<close> for \<open>dirPath\<close> itself. On such paths
  the call has no error.\<close>

definition relPath :: "string list \<Rightarrow> string" where
  "relPath rel = (if rel = [] then ''.'' else Join rel ''/'')"

text \<open>The second loop: the bytes written to the hash, or the first error.\<close>

fun hashInput :: "env \<Rightarrow> (string \<times> string list \<times> (error + string)) list \<Rightarrow> error + string" where
  "hashInput w [] = Inr []"
| "hashInput w ((filePath, rel, content) # files) =
     (case CalculateFileChecksum w content of
        Inl err \<Rightarrow> Inl (Error (''failed to hash file '' @ filePath @ '': '' @ Error_msg err))
      | Inr fileHash \<Rightarrow>
          (case hashInput w files of
             Inl err \<Rightarrow> Inl err
           | Inr rest \<Rightarrow> Inr (relPath rel @ [CHR 0x00] @ fileHash @ [CHR 0x00] @ rest)))"

text \<open>\<open>integrity.CalculateDirectoryChecksum\<close>. \<open>sort.Strings\<close> orders the paths byte by
  byte; the paths of a file system are distinct, so sorting the visits by their path
  gives the same sequence.\<close>

definition CalculateDirectoryChecksum :: "env \<Rightarrow> string \<Rightarrow> error + string" where
  "CalculateDirectoryChecksum w dirPath =
     (case collectFiles (Walk dirPath [] (fs_tree w dirPath)) of
        Inl err \<Rightarrow> Inl err
      | Inr files \<Rightarrow>
          (case hashInput w (sort_key fst files) of
             Inl err \<Rightarrow> Inl err
           | Inr bytes \<Rightarrow> Inr (sha256_hex w bytes)))"

section \<open>The fetcher\<close>

text \<open>\<open>github.ParseRepoURL\<close>.\<close>

definition ParseRepoURL :: "env \<Rightarrow> string \<Rightarrow> error + (string \<times> string)" where
  "ParseRepoURL w repoURL =
     (if \<not> Contains repoURL ''/'' then Inl (Error (''invalid repository format: '' @ repoURL))
      else if \<not> Contains repoURL ''://'' \<and> \<not> Contains repoURL ''@'' then
        (case Split repoURL (CHR ''/'') of
           [p0, p1] \<Rightarrow> Inr (p0, p1)
         | _ \<Rightarrow> Inl (Error (''invalid repository format: '' @ repoURL)))
      else if HasPrefix repoURL ''http'' then
        (case url_Parse w repoURL of
           Inl err \<Rightarrow> Inl (Error (''invalid URL: '' @ repoURL))
         | Inr (host, path) \<Rightarrow>
             if host \<noteq> ''github.com'' then Inl (Error ''only GitHub repositories are supported'')
             else (case Split (TrimSlashes path) (CHR ''/'') of
                     p0 # p1 # _ \<Rightarrow>
                       Inr (p0, if HasSuffix p1 ''.git'' then take (length p1 - 4) p1 else p1)
                   | _ \<Rightarrow> Inl (Error (''invalid repository URL: '' @ repoURL))))
      else if Contains repoURL ''@'' then
        (case ssh_Submatch w repoURL of
           None \<Rightarrow> Inl (Error (''invalid SSH repository URL: '' @ repoURL))
         | Some (m1, m2) \<Rightarrow> Inr (m1, m2))
      else Inl (Error (''unsupported repository URL format: '' @ repoURL)))"

text \<open>\<open>fetch.FetchResult\<close>, its fields written with the suffix \<open>_r\<close>.\<close>

record FetchResult =
  Path_r :: string
  Checksum_r :: string
  Version_r :: string
  CommitSHA_r :: string

text \<open>The full clone followed by the checkout of the reference, which both branches
  of \<open>cloneRepository\<close> run; \<open>what\<close> is the word of the checkout's message and \<open>tail\<close>
  what the clone's message ends with.\<close>

definition cloneAndCheckout ::
  "env \<Rightarrow> string \<Rightarrow> string \<Rightarrow> string \<Rightarrow> string \<Rightarrow> string \<Rightarrow> error + string" where
  "cloneAndCheckout w repoURL targetDir ref what tail =
     (case git_Run w [] [''clone'', repoURL, targetDir] of
        Some err \<Rightarrow> Inl (Error (''failed to clone repository: '' @ Error_msg err @ tail))
      | None \<Rightarrow>
          (case git_Run w targetDir [''checkout'', ref] of
             Some err \<Rightarrow>
               Inl (Error (''failed to checkout '' @ what @ '' '' @ [CHR 0x27] @ ref @ [CHR 0x27]
                      @ '': '' @ Error_msg err))
           | None \<Rightarrow> Inr targetDir))"

text \<open>\<open>(*Fetcher).cloneRepository\<close>. The removal of the directory \<open>.git\<close> at the end
  has its error dropped; what is left on disk is what \<open>fs_tree\<close> describes.\<close>

definition cloneRepository :: "env \<Rightarrow> Cache \<Rightarrow> string \<Rightarrow> string \<Rightarrow> string \<Rightarrow> error + string" where
  "cloneRepository w c owner repo ref =
     (let repoURL = repoURL_of owner repo;
          targetDir = filepath_Join [cacheDir c, ''repos'', owner, repo, ref]
      in case os_RemoveAll w targetDir of
           Some err \<Rightarrow> Inl (Errorf_w ''failed to clean target directory: '' err)
         | None \<Rightarrow>
      (case os_MkdirAll w (filepath_Dir targetDir) of
           Some err \<Rightarrow> Inl (Errorf_w ''failed to create cache directory: '' err)
         | None \<Rightarrow>
             if length ref = 40 \<and> IsHexString w ref
             then cloneAndCheckout w repoURL targetDir ref ''commit'' []
             else (case git_CombinedOutput w
                          [''clone'', ''--depth=1'', ''--branch'', ref, repoURL, targetDir] of
                     (output, None) \<Rightarrow> Inr targetDir
                   | (output, Some err) \<Rightarrow>
                       if Contains output ''does not exist'' \<or> Contains output ''not found''
                       then cloneAndCheckout w repoURL targetDir ref ''ref''
                              ([CHR 0x0A] @ ''Output: '' @ output)
                       else Inl (Error (''failed to clone repository: '' @ Error_msg err
                                   @ [CHR 0x0A] @ ''Output: '' @ output)))))"

text \<open>A call returns its results, or it panics and returns nothing; the text is the
  message of the panic.\<close>

datatype 'a outcome = Returns 'a | Panics string

text \<open>
  \<open>(*Fetcher).FetchDependency\<close>: the result or the error, and the cache afterwards. The
  last log message takes \<open>commitSHA[:8]\<close> when the commit id is not empty; on a commit id
  of fewer than eight bytes that slice expression panics, after the entry has been
  stored.
\<close>

definition FetchDependency ::
  "env \<Rightarrow> Cache \<Rightarrow> string \<Rightarrow> Dependency \<Rightarrow> (error + FetchResult) outcome \<times> Cache" where
  "FetchDependency w c name dep =
     (case ParseRepoURL w (Git dep) of
        Inl err \<Rightarrow>
          (Returns (Inl (Error (''invalid git URL for '' @ [CHR 0x27] @ name @ [CHR 0x27]
                    @ '': '' @ Error_msg err))), c)
      | Inr (owner, repo) \<Rightarrow>
          (let cacheKey = GenerateCacheKey w owner repo dep
           in case Get w c cacheKey of
                ((cached, True), c1) \<Rightarrow>
                  (Returns (Inr \<lparr>Path_r = Path cached, Checksum_r = Checksum cached,
                        Version_r = Version_e cached, CommitSHA_r = CommitSHA cached\<rparr>), c1)
              | ((cached, False), c1) \<Rightarrow>
           (case determineRefWithValidation w owner repo dep of
              Inl err \<Rightarrow>
                (Returns (Inl (Error (''failed to determine reference for '' @ [CHR 0x27] @ name
                        @ [CHR 0x27] @ '': '' @ Error_msg err))), c1)
            | Inr (ref, resolvedVersion, commitSHA) \<Rightarrow>
           (case cloneRepository w c1 owner repo ref of
              Inl err \<Rightarrow>
                (Returns (Inl (Error (''failed to clone repository '' @ [CHR 0x27] @ owner @ ''/''
                        @ repo @ [CHR 0x27] @ '': '' @ Error_msg err))), c1)
            | Inr repoPath \<Rightarrow>
           (case CalculateDirectoryChecksum w repoPath of
              Inl err \<Rightarrow>
                (Returns (Inl (Error (''failed to calculate checksum for '' @ [CHR 0x27] @ name
                        @ [CHR 0x27] @ '': '' @ Error_msg err))), c1)
            | Inr checksum \<Rightarrow>
                (if commitSHA \<noteq> [] \<and> length commitSHA < 8
                 then Panics ''slice bounds out of range''
                 else Returns (Inr \<lparr>Path_r = repoPath, Checksum_r = checksum,
                                Version_r = resolvedVersion, CommitSHA_r = commitSHA\<rparr>),
                 Set w c1 cacheKey
                   \<lparr>Path = repoPath, Checksum = checksum,
                    Version_e = resolvedVersion, CommitSHA = commitSHA\<rparr>))))))"

section \<open>The consistency check\<close>

text \<open>\<open>manifest.LockedPackage\<close> (the fields \<open>Version\<close> and \<open>Checksum\<close> written with the
  suffix \<open>_l\<close>), and the three dependency tables of \<open>manifest.Manifest\<close>.\<close>

record LockedPackage =
  Name :: string
  Version_l :: string
  Source :: string
  Checksum_l :: string
  Deps :: "string list"

record Manifest =
  Dependencies :: "string \<rightharpoonup> Dependency"
  DevDeps :: "string \<rightharpoonup> Dependency"
  BuildDeps :: "string \<rightharpoonup> Dependency"

text \<open>\<open>(*Manifest).GetAllDependencies\<close>: a later table overwrites an earlier one.\<close>

definition GetAllDependencies :: "Manifest \<Rightarrow> (string \<rightharpoonup> Dependency)" where
  "GetAllDependencies m = Dependencies m ++ DevDeps m ++ BuildDeps m"

text \<open>The map \<open>lockPkgMap\<close> of \<open>runSync\<close>; reading a key that was never set gives
  \<open>false\<close>.\<close>

fun lockPkgMap :: "LockedPackage list \<Rightarrow> string \<Rightarrow> bool" where
  "lockPkgMap [] = (\<lambda>name. False)"
| "lockPkgMap (pkg # pkgs) = (\<lambda>name. if name = Name pkg then True else lockPkgMap pkgs name)"

text \<open>
  The comparison of \<open>runSync\<close>. Go visits the keys of a map in an order it does not
  fix; \<open>names\<close> is the order in which the loop over \<open>manifestDeps\<close> meets them, each
  key once. The quote of the messages is the character \<open>0x27\<close>.
\<close>

definition inManifestOnly :: "string \<Rightarrow> string" where
  "inManifestOnly name = [CHR 0x27] @ name @ [CHR 0x27] @ '' is in manifest but not in lock file''"

definition inLockOnly :: "string \<Rightarrow> string" where
  "inLockOnly name = [CHR 0x27] @ name @ [CHR 0x27] @ '' is in lock file but not in manifest''"

definition inconsistencies ::
  "string list \<Rightarrow> (string \<rightharpoonup> Dependency) \<Rightarrow> LockedPackage list \<Rightarrow> string list" where
  "inconsistencies names manifestDeps pkgs =
     map inManifestOnly (filter (\<lambda>name. \<not> lockPkgMap pkgs name) names)
       @ map (\<lambda>pkg. inLockOnly (Name pkg)) (filter (\<lambda>pkg. manifestDeps (Name pkg) = None) pkgs)"

text \<open>What \<open>runSync\<close> reports before it validates the dependencies: the issues it
  logs, and its error when there is one.\<close>

definition checkSync ::
  "string list \<Rightarrow> (string \<rightharpoonup> Dependency) \<Rightarrow> LockedPackage list \<Rightarrow> string list \<times> error option" where
  "checkSync names manifestDeps pkgs =
     (let issues = inconsistencies names manifestDeps pkgs
      in if length issues > 0 then (issues, Some (Error ''dependencies are not synchronized''))
         else ([], None))"

section \<open>The vocabulary of the checksum's specification\<close>



text \<open>
  The regular files of a tree, read off the tree alone: each file with the names that
  lead to it from the root, in the order in which the directories list their entries.
  The listing of a tree has, for every file none of whose names is \<open>.git\<close>, the pair of
  its relative path (the names joined by \<open>/\<close>, or \<open>.\<close> for the root itself) and its
  content.
\<close>

fun files_below :: "string list \<Rightarrow> fs_node \<Rightarrow> (string list \<times> (error + string)) list" where
  "files_below rel (File content) = [(rel, content)]"
| "files_below rel (Failing err) = []"
| "files_below rel (Dir es) = concat (map (\<lambda>(name, t). files_below (rel @ [name]) t) es)"

definition relative_listing :: "fs_node \<Rightarrow> (string \<times> (error + string)) list" where
  "relative_listing t =
     map (\<lambda>(rel, content). (relPath rel, content))
       (filter (\<lambda>(rel, content). ''.git'' \<notin> set rel) (files_below [] t))"



section \<open>What the walk collects\<close>



definition listing_entry ::
  "string \<times> string list \<times> (error + string) \<Rightarrow> string \<times> (error + string)" where
  "listing_entry x = (relPath (fst (snd x)), snd (snd x))"

fun file_visits ::
  "(string \<times> string list \<times> fs_node) list \<Rightarrow> (string list \<times> (error + string)) list" where
  "file_visits [] = []"
| "file_visits ((path, rel, node) # vs) =
     (case node of File content \<Rightarrow> (rel, content) # file_visits vs | _ \<Rightarrow> file_visits vs)"


section \<open>Example worlds\<close>

text \<open>
  Concrete worlds for the examples below. In \<open>world_offline\<close> every request and every
  subprocess fails and no path exists. \<open>digest_of\<close> stands in for SHA-256 in examples:
  it prints its input, so that distinct inputs have distinct digests; no theorem about
  every world depends on it. \<open>lsRemote refs pattern\<close> is what \<open>git ls-remote\<close> prints for a repository
  with the references \<open>refs\<close> (name and commit id): one line per reference whose name is
  the pattern or ends with the pattern after a slash.
\<close>

definition digest_of :: "string \<Rightarrow> string" where
  "digest_of bytes = ''sha256('' @ bytes @ '')''"

definition world_offline :: env where
  "world_offline =
     \<lparr>git_Output = (\<lambda>args. Inl (Error ''exit status 128'')),
      git_CombinedOutput = (\<lambda>args. ([], Some (Error ''exit status 128''))),
      git_Run = (\<lambda>dir args. Some (Error ''exit status 128'')),
      makeRequest = (\<lambda>url. Inl (Error ''dial tcp: no route to host'')),
      json_Release = (\<lambda>body. Inl (Error ''unexpected end of JSON input'')),
      json_TagNames = (\<lambda>body. Inl (Error ''unexpected end of JSON input'')),
      url_Parse = (\<lambda>url. Inl (Error ''invalid URL'')),
      ssh_Submatch = (\<lambda>url. None),
      os_Stat_IsNotExist = (\<lambda>path. True),
      os_RemoveAll = (\<lambda>path. None),
      os_MkdirAll = (\<lambda>path. None),
      os_WriteFile = (\<lambda>path. None),
      fs_tree = (\<lambda>path. Failing (Error ''lstat: no such file or directory'')),
      sha256_hex = digest_of,
      IsHexString = (\<lambda>s. list_all (\<lambda>c. isDigit c \<or> (CHR ''a'' \<le> c \<and> c \<le> CHR ''f'')
                                     \<or> (CHR ''A'' \<le> c \<and> c \<le> CHR ''F'')) s),
      GenerateCacheKey = generateCacheKey\<rparr>"

definition lsRemote :: "(string \<times> string) list \<Rightarrow> string \<Rightarrow> string" where
  "lsRemote refs pattern =
     concat (map (\<lambda>(ref, sha). sha @ [CHR 0x09] @ ref @ [CHR 0x0A])
               (filter (\<lambda>(ref, sha). ref = pattern \<or> HasSuffix ref (''/'' @ pattern)) refs))"

text \<open>
  The world in which GitHub hosts \<open>owner/repo\<close> with the given references, the given
  latest release (if any) and the given reply of the tags endpoint; the bodies of the
  replies are left abstract (\<open>release\<close>, \<open>tags\<close>) and decoded by the two JSON fields.
  A shallow clone of a tag or branch that exists succeeds; any other clone fails.
\<close>

definition world_github :: "(string \<times> string) list \<Rightarrow> Release option \<Rightarrow> string list \<Rightarrow> env" where
  "world_github refs latest tagNames =
     world_offline
       \<lparr>git_Output :=
          (\<lambda>args. case args of
                     [a, b, url, pattern] \<Rightarrow>
                       if a = ''ls-remote'' \<and> b = ''--tags'' \<and> url = repoURL_of ''owner'' ''repo''
                       then Inr (lsRemote (filter (\<lambda>(ref, sha). HasPrefix ref ''refs/tags/'') refs) pattern)
                       else Inl (Error ''exit status 128'')
                   | [a, url, pattern] \<Rightarrow>
                       if a = ''ls-remote'' \<and> url = repoURL_of ''owner'' ''repo''
                       then Inr (lsRemote refs pattern)
                       else Inl (Error ''exit status 128'')
                   | _ \<Rightarrow> Inl (Error ''exit status 128'')),
        git_CombinedOutput :=
          (\<lambda>args. case args of
                     [a, depth, b, ref, url, targetDir] \<Rightarrow>
                       if a = ''clone'' \<and> b = ''--branch'' \<and> url = repoURL_of ''owner'' ''repo''
                          \<and> (''refs/tags/'' @ ref \<in> set (map fst refs)
                               \<or> ''refs/heads/'' @ ref \<in> set (map fst refs))
                       then ([], None)
                       else (''fatal: Remote branch '' @ ref @ '' not found in upstream origin'',
                             Some (Error ''exit status 128''))
                   | _ \<Rightarrow> ([], Some (Error ''exit status 128''))),
        makeRequest :=
          (\<lambda>url. if url = ''https://api.github.com/repos/owner/repo/releases/latest''
                  then (case latest of
                          None \<Rightarrow> Inr \<lparr>StatusCode = 404, Body = Inr ''Not Found''\<rparr>
                        | Some r \<Rightarrow> Inr \<lparr>StatusCode = 200, Body = Inr ''release''\<rparr>)
                  else if url = ''https://api.github.com/repos/owner/repo/tags''
                  then Inr \<lparr>StatusCode = 200, Body = Inr ''tags''\<rparr>
                  else Inl (Error ''dial tcp: no route to host'')),
        json_Release :=
          (\<lambda>body. case latest of
                     Some r \<Rightarrow> if body = ''release'' then Inr r
                               else Inl (Error ''unexpected end of JSON input'')
                   | None \<Rightarrow> Inl (Error ''unexpected end of JSON input'')),
        json_TagNames :=
          (\<lambda>body. if body = ''tags'' then Inr tagNames
                   else Inl (Error ''unexpected end of JSON input''))\<rparr>"

definition dep_none :: Dependency where
  "dep_none = \<lparr>Git = ''owner/repo'', Version = [], Branch = [], Tag = [], Rev = [],
               RootFile = [], UseLatestCommit = False\<rparr>"

definition world_tags :: env where
  "world_tags =
     world_github [(''refs/heads/main'', ''abc1230000000000000000000000000000000000''),
                   (''refs/tags/0.9.0'', ''1110000000000000000000000000000000000000''),
                   (''refs/tags/v0.10.0'', ''2220000000000000000000000000000000000000'')]
       None [''0.9.0'', ''v0.10.0'']"

definition entry_example :: Entry where
  "entry_example =
     \<lparr>Path = ''/home/u/.yuki/cache/repos/owner/repo/v1.0.0'', Checksum = ''c0ffee'',
      Version_e = ''v1.0.0'', CommitSHA = []\<rparr>"

definition cache_empty :: Cache where
  "cache_empty =
     \<lparr>cacheDir = ''/home/u/.yuki/cache'', entries = Map.empty, index_json = Map.empty\<rparr>"

definition release_candidate :: Release where
  "release_candidate =
     \<lparr>TagName = ''v2.0.0-rc1'', Name_r = ''2.0.0 release candidate'', Draft = False,
      Prerelease = True\<rparr>"

definition release_stable :: Release where
  "release_stable = \<lparr>TagName = ''v1.0.0'', Name_r = ''1.0.0'', Draft = False, Prerelease = False\<rparr>"

definition commit_main :: string where
  "commit_main = ''abc1230000000000000000000000000000000000''"

definition world_release :: "Release \<Rightarrow> env" where
  "world_release r = world_github [(''refs/heads/main'', commit_main)] (Some r) []"

definition world_no_release :: env where
  "world_no_release = world_github [(''refs/heads/main'', commit_main)] None []"

definition world_master_only :: env where
  "world_master_only = world_github [(''refs/heads/master'', commit_main)] None []"

text \<open>Two checkouts of the same sources: the second lists its entries in another
  order and has a directory \<open>.git\<close> at the top and another one inside \<open>src\<close>.\<close>

definition tree_clean :: fs_node where
  "tree_clean =
     Dir [(''build.zig'', File (Inr ''const version = 1;'')),
          (''src'', Dir [(''main.zig'', File (Inr ''pub fn main() void {}'')),
                        (''util.zig'', File (Inr ''pub const x = 1;''))])]"



definition pkg_named :: "string \<Rightarrow> LockedPackage" where
  "pkg_named n =
     \<lparr>Name = n, Version_l = ''1.0.0'', Source = ''owner/'' @ n, Checksum_l = [], Deps = []\<rparr>"

definition manifest_AB :: "string \<rightharpoonup> Dependency" where
  "manifest_AB = [''A'' \<mapsto> dep_none, ''B'' \<mapsto> dep_none]"

text \<open>The remote of the end-to-end example, with the tags \<open>1.0.0\<close>, \<open>1.5.0\<close> and
  \<open>v2.0.0\<close>; the sources appear on disk where a clone of the tag \<open>1.0.0\<close> puts them.\<close>

definition world_semver :: env where
  "world_semver =
     (world_github [(''refs/heads/main'', commit_main),
                    (''refs/tags/1.0.0'', ''1000000000000000000000000000000000000000''),
                    (''refs/tags/1.5.0'', ''1500000000000000000000000000000000000000''),
                    (''refs/tags/v2.0.0'', ''2000000000000000000000000000000000000000'')]
        None [''1.0.0'', ''1.5.0'', ''v2.0.0''])
       \<lparr>fs_tree := (\<lambda>p. if p = ''/home/u/.yuki/cache/repos/owner/repo/1.0.0'' then tree_clean
                         else Failing (Error ''lstat: no such file or directory''))\<rparr>"

definition dep_caret :: Dependency where
  "dep_caret = dep_none\<lparr>Version := ''^1.0.0''\<rparr>"

text \<open>The same remote where the full clone and the checkout succeed as well, and a
  dependency pinned to an abbreviated commit id.\<close>

definition world_full_clone :: env where
  "world_full_clone =
     world_semver
       \<lparr>git_Run := (\<lambda>dir args. None),
        fs_tree := (\<lambda>p. if p = ''/home/u/.yuki/cache/repos/owner/repo/abc1234'' then tree_clean
                         else Failing (Error ''lstat: no such file or directory''))\<rparr>"

definition dep_short_rev :: Dependency where
  "dep_short_rev = dep_none\<lparr>Rev := ''abc1234''\<rparr>"

definition cache_one :: Cache where
  "cache_one =
     \<lparr>cacheDir = ''/home/u/.yuki/cache'',
      entries = [''owner-repo-tag-v1.0.0'' \<mapsto> entry_example],
      index_json = [''owner-repo-tag-v1.0.0'' \<mapsto> entry_example]\<rparr>"

section \<open>Reference resolution: the selectors\<close>

lemma Fields_Nil_iff: "Fields s = [] \<longleftrightarrow> (\<forall>c \<in> set s. isSpace c)"
  by (induction s rule: Fields.induct) (auto split: list.splits)

lemma dropWhile_all: "(\<forall>x \<in> set (dropWhile P xs). P x) \<longleftrightarrow> (\<forall>x \<in> set xs. P x)"
  by (induction xs) auto

lemma TrimSpace_Nil_iff: "TrimSpace s = [] \<longleftrightarrow> (\<forall>c \<in> set s. isSpace c)"
  by (simp add: TrimSpace_def dropWhile_eq_Nil_conv dropWhile_all)

lemma TrimSpace_Fields: "TrimSpace s \<noteq> [] \<longleftrightarrow> Fields s \<noteq> []"
  by (simp add: Fields_Nil_iff TrimSpace_Nil_iff)

text \<open>
  Claim C6. An explicit revision wins over a tag, a tag over a branch, and each of them
  over a version constraint (and over a request for the latest commit): whatever the
  other fields and the remote are, the selector is used verbatim as retrieval reference
  and as reported version. The commit id is the revision for a revision and empty for a
  tag or a branch.
\<close>

theorem selector_precedence:
  "(Rev dep \<noteq> [] \<longrightarrow>
      determineRefWithValidation w owner repo dep = Inr (Rev dep, Rev dep, Rev dep))
   \<and> (Rev dep = [] \<and> Tag dep \<noteq> [] \<longrightarrow>
      determineRefWithValidation w owner repo dep = Inr (Tag dep, Tag dep, []))
   \<and> (Rev dep = [] \<and> Tag dep = [] \<and> Branch dep \<noteq> [] \<longrightarrow>
      determineRefWithValidation w owner repo dep = Inr (Branch dep, Branch dep, []))"
  by (simp add: determineRefWithValidation_def)

text \<open>The example of the claim, a tag \<open>v1.0.0\<close> beside the constraint \<open>^2.0.0\<close>, and two
  more with a revision and with a branch.\<close>

theorem selector_precedence_witness:
  "determineRefWithValidation world_offline ''owner'' ''repo''
     (dep_none\<lparr>Tag := ''v1.0.0'', Version := ''^2.0.0''\<rparr>) = Inr (''v1.0.0'', ''v1.0.0'', [])
   \<and> determineRefWithValidation world_offline ''owner'' ''repo''
     (dep_none\<lparr>Rev := ''0123abc'', Tag := ''v1.0.0'', Branch := ''dev'', Version := ''^2.0.0''\<rparr>)
       = Inr (''0123abc'', ''0123abc'', ''0123abc'')
   \<and> determineRefWithValidation world_offline ''owner'' ''repo''
     (dep_none\<lparr>Branch := ''dev'', Version := ''^2.0.0''\<rparr>) = Inr (''dev'', ''dev'', [])"
  using selector_precedence [of "dep_none\<lparr>Tag := ''v1.0.0'', Version := ''^2.0.0''\<rparr>"
      world_offline "''owner''" "''repo''"]
    selector_precedence [of "dep_none\<lparr>Rev := ''0123abc'', Tag := ''v1.0.0'', Branch := ''dev'',
      Version := ''^2.0.0''\<rparr>" world_offline "''owner''" "''repo''"]
    selector_precedence [of "dep_none\<lparr>Branch := ''dev'', Version := ''^2.0.0''\<rparr>"
      world_offline "''owner''" "''repo''"]
  by (simp add: dep_none_def)

lemma probeTags_two:
  "probeTags w owner repo [a, b] =
     (if checkTagExists w owner repo a = Inr True then Some a
      else if checkTagExists w owner repo b = Inr True then Some b
      else None)"
  by (auto split: sum.splits)

text \<open>
  Claim C4. For a dependency whose only selector is a version constraint other than
  \<open>latest\<close>: the bare version is the constraint with a leading \<open>^\<close>, then a leading \<open>~\<close>,
  then a leading \<open>=\<close> removed; the remote is probed for the bare version and then for
  the bare version behind \<open>v\<close>; the first of the two that the probe reports present is
  the retrieval reference (the reported version is the constraint as written); when the
  probe reports neither, the result is the error "no matching tag found". A probe that
  fails counts as a tag that is absent.
\<close>

theorem concrete_version_probe:
  assumes "Rev dep = []" and "Tag dep = []" and "Branch dep = []" and "\<not> UseLatestCommit dep"
    and "Version dep \<noteq> []" and "Version dep \<noteq> ''latest''"
  shows "determineRefWithValidation w owner repo dep =
     (let bare = TrimPrefix (TrimPrefix (TrimPrefix (Version dep) ''^'') ''~'') ''=''
      in if checkTagExists w owner repo bare = Inr True
           then Inr (bare, Version dep, [])
         else if checkTagExists w owner repo (''v'' @ bare) = Inr True
           then Inr (''v'' @ bare, Version dep, [])
         else Inl (Error (''no matching tag found for version '' @ Version dep
                     @ '' (tried: '' @ bare @ '', v'' @ bare @ '')'')))"
proof -
  have "determineRefWithValidation w owner repo dep =
     (let version = bareVersion (Version dep); possibleTags = [version, ''v'' @ version]
      in case probeTags w owner repo possibleTags of
                 Some tag \<Rightarrow> Inr (tag, Version dep, [])
               | None \<Rightarrow>
                   Inl (Error (''no matching tag found for version '' @ Version dep
                          @ '' (tried: '' @ Join possibleTags '', '' @ '')'')))"
    using assms unfolding determineRefWithValidation_def by simp
  then show ?thesis
    unfolding Let_def probeTags_two bareVersion_def by simp
qed

text \<open>A remote with the tags \<open>0.9.0\<close> and \<open>v0.10.0\<close>: \<open>~0.10.0\<close> is found behind \<open>v\<close>,
  \<open>=0.9.0\<close> as it is, and \<open>^1.0.0\<close> not at all.\<close>

theorem concrete_version_probe_witness:
  "determineRefWithValidation world_tags ''owner'' ''repo'' (dep_none\<lparr>Version := ''~0.10.0''\<rparr>)
       = Inr (''v0.10.0'', ''~0.10.0'', [])
   \<and> determineRefWithValidation world_tags ''owner'' ''repo'' (dep_none\<lparr>Version := ''=0.9.0''\<rparr>)
       = Inr (''0.9.0'', ''=0.9.0'', [])
   \<and> determineRefWithValidation world_tags ''owner'' ''repo'' (dep_none\<lparr>Version := ''^1.0.0''\<rparr>)
       = Inl (Error ''no matching tag found for version ^1.0.0 (tried: 1.0.0, v1.0.0)'')"
proof -
  have a: "checkTagExists world_tags ''owner'' ''repo'' ''0.10.0'' = Inr False"
    and b: "checkTagExists world_tags ''owner'' ''repo'' ''v0.10.0'' = Inr True"
    and c: "checkTagExists world_tags ''owner'' ''repo'' ''0.9.0'' = Inr True"
    and d: "checkTagExists world_tags ''owner'' ''repo'' ''1.0.0'' = Inr False"
    and e: "checkTagExists world_tags ''owner'' ''repo'' ''v1.0.0'' = Inr False"
    by code_simp+
  show ?thesis
    using concrete_version_probe [of "dep_none\<lparr>Version := ''~0.10.0''\<rparr>" world_tags
        "''owner''" "''repo''"]
      concrete_version_probe [of "dep_none\<lparr>Version := ''=0.9.0''\<rparr>" world_tags
        "''owner''" "''repo''"]
      concrete_version_probe [of "dep_none\<lparr>Version := ''^1.0.0''\<rparr>" world_tags
        "''owner''" "''repo''"]
    by (simp add: dep_none_def TrimPrefix_def HasPrefix_def Let_def a b c d e)
qed

text \<open>
  Claim C3, as amended. For a dependency whose version constraint is \<open>latest\<close> and which
  has no revision, tag or branch and does not ask for the latest commit, the remote is
  asked for its latest release: when the request fails the resolution fails, otherwise
  the tag of the release that came back is the retrieval reference and the reported
  version, verbatim. The fields \<open>Draft\<close> and \<open>Prerelease\<close> of the release are not read:
  the result is a function of the tag name alone.
\<close>

theorem latest_release_verbatim:
  assumes "Rev dep = []" and "Tag dep = []" and "Branch dep = []" and "\<not> UseLatestCommit dep"
    and "Version dep = ''latest''"
  shows "determineRefWithValidation w owner repo dep =
     (case GetLatestRelease w owner repo of
        Inl err \<Rightarrow> Inl (Errorf_w ''failed to get latest release: '' err)
      | Inr release \<Rightarrow> Inr (TagName release, TagName release, []))"
  using assms
  by (simp add: determineRefWithValidation_def getLatestReleaseTag_def split: sum.splits)

theorem latest_release_verbatim_witness:
  "determineRefWithValidation (world_release release_stable) ''owner'' ''repo''
     (dep_none\<lparr>Version := ''latest''\<rparr>) = Inr (''v1.0.0'', ''v1.0.0'', [])
   \<and> determineRefWithValidation world_no_release ''owner'' ''repo''
     (dep_none\<lparr>Version := ''latest''\<rparr>)
       = Inl (Error ''failed to get latest release: no releases found'')"
proof -
  have a: "GetLatestRelease (world_release release_stable) ''owner'' ''repo'' = Inr release_stable"
    and b: "GetLatestRelease world_no_release ''owner'' ''repo'' = Inl (Error ''no releases found'')"
    by code_simp+
  have t: "TagName release_stable = ''v1.0.0''"
    by (simp add: release_stable_def)
  show ?thesis
    using latest_release_verbatim [of "dep_none\<lparr>Version := ''latest''\<rparr>"
        "world_release release_stable" "''owner''" "''repo''"]
      latest_release_verbatim [of "dep_none\<lparr>Version := ''latest''\<rparr>"
        world_no_release "''owner''" "''repo''"]
    by (simp add: dep_none_def a b t Errorf_w_def)
qed

text \<open>
  Claim C3 as it is written fails twice. When the remote answers the request for the
  latest release with a release marked as a prerelease, that release's tag is selected.
  And a dependency with the constraint \<open>latest\<close> that also asks for the latest commit
  is resolved to the tip of \<open>main\<close>, not to the release.
\<close>

theorem latest_release_counterexample:
  "GetLatestRelease (world_release release_candidate) ''owner'' ''repo'' = Inr release_candidate
   \<and> Prerelease release_candidate
   \<and> determineRefWithValidation (world_release release_candidate) ''owner'' ''repo''
        (dep_none\<lparr>Version := ''latest''\<rparr>) = Inr (''v2.0.0-rc1'', ''v2.0.0-rc1'', [])
   \<and> GetLatestRelease (world_release release_stable) ''owner'' ''repo'' = Inr release_stable
   \<and> determineRefWithValidation (world_release release_stable) ''owner'' ''repo''
        (dep_none\<lparr>Version := ''latest'', UseLatestCommit := True\<rparr>)
        = Inr (commit_main, commit_main, commit_main)"
  by code_simp

lemma getLatestCommitSHA_main:
  assumes "git_Output w [''ls-remote'', repoURL_of owner repo, ''refs/heads/main''] = Inr out"
    and "Fields out = sha # rest"
  shows "getLatestCommitSHA w owner repo = Inr sha"
proof -
  have "TrimSpace out \<noteq> []"
    using assms(2) by (simp add: TrimSpace_Fields)
  then show ?thesis
    using assms by (simp add: getLatestCommitSHA_def)
qed

lemma getLatestCommitSHA_not_main:
  assumes "(\<exists>err. git_Output w [''ls-remote'', repoURL_of owner repo, ''refs/heads/main''] = Inl err)
     \<or> (\<exists>out. git_Output w [''ls-remote'', repoURL_of owner repo, ''refs/heads/main''] = Inr out
            \<and> Fields out = [])"
  shows "getLatestCommitSHA w owner repo = getLatestCommitSHA_master w owner repo"
  using assms by (auto simp: getLatestCommitSHA_def)

lemma getLatestCommitSHA_master_ok:
  assumes "git_Output w [''ls-remote'', repoURL_of owner repo, ''refs/heads/master''] = Inr out"
    and "Fields out = sha # rest"
  shows "getLatestCommitSHA_master w owner repo = Inr sha"
  using assms by (simp add: getLatestCommitSHA_master_def)

lemma getLatestCommitSHA_master_fails:
  assumes "(\<exists>err. git_Output w [''ls-remote'', repoURL_of owner repo, ''refs/heads/master''] = Inl err)
     \<or> (\<exists>out. git_Output w [''ls-remote'', repoURL_of owner repo, ''refs/heads/master''] = Inr out
            \<and> Fields out = [])"
  shows "\<exists>err. getLatestCommitSHA_master w owner repo = Inl err"
  using assms by (auto simp: getLatestCommitSHA_master_def)

lemma determineRef_no_selector:
  assumes "Rev dep = []" and "Tag dep = []" and "Branch dep = []" and "\<not> UseLatestCommit dep"
    and "Version dep = []"
  shows "determineRefWithValidation w owner repo dep =
     (let commit = (case getLatestCommitSHA w owner repo of
                      Inl err \<Rightarrow> Inl (Errorf_w ''failed to get latest commit: '' err)
                    | Inr commitSHA \<Rightarrow> Inr (commitSHA, commitSHA, commitSHA))
      in case getLatestReleaseTag w owner repo of
           Inr latestTag \<Rightarrow> if latestTag \<noteq> [] then Inr (latestTag, latestTag, []) else commit
         | Inl err \<Rightarrow> commit)"
  using assms unfolding determineRefWithValidation_def Let_def by simp

text \<open>
  Claim C5. For a dependency with no selector at all (no revision, tag, branch or version
  constraint, and no request for the latest commit):
  \<^item> when the request for the latest release gives a tag that is not empty, that tag is the
    retrieval reference and the reported version;
  \<^item> otherwise (the request fails, or the tag is empty) the branch \<open>main\<close> is asked for: the
    first field of what \<open>git ls-remote\<close> prints for \<open>refs/heads/main\<close>, the commit id, is
    retrieval reference, reported version and commit id at once;
  \<^item> when that command fails or prints no field, the same holds with \<open>refs/heads/master\<close>;
  \<^item> and when this fails too, the resolution fails.
\<close>

theorem no_selector_resolution:
  assumes "Rev dep = []" and "Tag dep = []" and "Branch dep = []" and "\<not> UseLatestCommit dep"
    and "Version dep = []"
  shows "(\<forall>tag. getLatestReleaseTag w owner repo = Inr tag \<and> tag \<noteq> [] \<longrightarrow>
            determineRefWithValidation w owner repo dep = Inr (tag, tag, []))
    \<and> ((getLatestReleaseTag w owner repo = Inr [] \<or> (\<exists>err. getLatestReleaseTag w owner repo = Inl err)) \<longrightarrow>
         (\<forall>out sha rest.
            git_Output w [''ls-remote'', repoURL_of owner repo, ''refs/heads/main''] = Inr out
              \<and> Fields out = sha # rest \<longrightarrow>
            determineRefWithValidation w owner repo dep = Inr (sha, sha, sha))
       \<and> (((\<exists>err. git_Output w [''ls-remote'', repoURL_of owner repo, ''refs/heads/main''] = Inl err)
             \<or> (\<exists>out. git_Output w [''ls-remote'', repoURL_of owner repo, ''refs/heads/main''] = Inr out
                    \<and> Fields out = [])) \<longrightarrow>
            (\<forall>out sha rest.
               git_Output w [''ls-remote'', repoURL_of owner repo, ''refs/heads/master''] = Inr out
                 \<and> Fields out = sha # rest \<longrightarrow>
               determineRefWithValidation w owner repo dep = Inr (sha, sha, sha))
          \<and> (((\<exists>err. git_Output w [''ls-remote'', repoURL_of owner repo, ''refs/heads/master''] = Inl err)
                \<or> (\<exists>out. git_Output w [''ls-remote'', repoURL_of owner repo, ''refs/heads/master''] = Inr out
                       \<and> Fields out = [])) \<longrightarrow>
               (\<exists>err. determineRefWithValidation w owner repo dep = Inl err))))"
proof -
  note d = determineRef_no_selector [OF assms, of w owner repo]
  have release: "\<forall>tag. getLatestReleaseTag w owner repo = Inr tag \<and> tag \<noteq> [] \<longrightarrow>
            determineRefWithValidation w owner repo dep = Inr (tag, tag, [])"
    using d by (simp add: Let_def)
  have fallback: "determineRefWithValidation w owner repo dep =
      (case getLatestCommitSHA w owner repo of
         Inl err \<Rightarrow> Inl (Errorf_w ''failed to get latest commit: '' err)
       | Inr commitSHA \<Rightarrow> Inr (commitSHA, commitSHA, commitSHA))"
    if "getLatestReleaseTag w owner repo = Inr [] \<or> (\<exists>err. getLatestReleaseTag w owner repo = Inl err)"
    using d that by (auto simp: Let_def)
  show ?thesis
  proof (intro conjI impI allI)
    fix tag assume "getLatestReleaseTag w owner repo = Inr tag \<and> tag \<noteq> []"
    then show "determineRefWithValidation w owner repo dep = Inr (tag, tag, [])"
      using release by blast
  next
    fix out sha rest
    assume n: "getLatestReleaseTag w owner repo = Inr [] \<or> (\<exists>err. getLatestReleaseTag w owner repo = Inl err)"
      and m: "git_Output w [''ls-remote'', repoURL_of owner repo, ''refs/heads/main''] = Inr out
              \<and> Fields out = sha # rest"
    show "determineRefWithValidation w owner repo dep = Inr (sha, sha, sha)"
      using fallback [OF n] getLatestCommitSHA_main [of w owner repo out sha rest] m by simp
  next
    fix out sha rest
    assume n: "getLatestReleaseTag w owner repo = Inr [] \<or> (\<exists>err. getLatestReleaseTag w owner repo = Inl err)"
      and nm: "(\<exists>err. git_Output w [''ls-remote'', repoURL_of owner repo, ''refs/heads/main''] = Inl err)
             \<or> (\<exists>out. git_Output w [''ls-remote'', repoURL_of owner repo, ''refs/heads/main''] = Inr out
                    \<and> Fields out = [])"
      and m: "git_Output w [''ls-remote'', repoURL_of owner repo, ''refs/heads/master''] = Inr out
              \<and> Fields out = sha # rest"
    show "determineRefWithValidation w owner repo dep = Inr (sha, sha, sha)"
      using fallback [OF n] getLatestCommitSHA_not_main [OF nm]
        getLatestCommitSHA_master_ok [of w owner repo out sha rest] m by simp
  next
    assume n: "getLatestReleaseTag w owner repo = Inr [] \<or> (\<exists>err. getLatestReleaseTag w owner repo = Inl err)"
      and nm: "(\<exists>err. git_Output w [''ls-remote'', repoURL_of owner repo, ''refs/heads/main''] = Inl err)
             \<or> (\<exists>out. git_Output w [''ls-remote'', repoURL_of owner repo, ''refs/heads/main''] = Inr out
                    \<and> Fields out = [])"
      and f: "(\<exists>err. git_Output w [''ls-remote'', repoURL_of owner repo, ''refs/heads/master''] = Inl err)
                \<or> (\<exists>out. git_Output w [''ls-remote'', repoURL_of owner repo, ''refs/heads/master''] = Inr out
                       \<and> Fields out = [])"
    obtain err where "getLatestCommitSHA_master w owner repo = Inl err"
      using getLatestCommitSHA_master_fails [OF f] by blast
    then show "\<exists>err. determineRefWithValidation w owner repo dep = Inl err"
      using fallback [OF n] getLatestCommitSHA_not_main [OF nm] by simp
  qed
qed

text \<open>The example of the specification: no release, the tip of \<open>main\<close> is \<open>abc123...\<close>;
  then a repository that has only \<open>master\<close>; then one with a release.\<close>

theorem no_selector_resolution_witness:
  "determineRefWithValidation world_no_release ''owner'' ''repo'' dep_none
     = Inr (''abc1230000000000000000000000000000000000'',
            ''abc1230000000000000000000000000000000000'',
            ''abc1230000000000000000000000000000000000'')
   \<and> determineRefWithValidation world_master_only ''owner'' ''repo'' dep_none
     = Inr (''abc1230000000000000000000000000000000000'',
            ''abc1230000000000000000000000000000000000'',
            ''abc1230000000000000000000000000000000000'')
   \<and> determineRefWithValidation (world_release release_stable) ''owner'' ''repo'' dep_none
     = Inr (''v1.0.0'', ''v1.0.0'', [])"
proof -
  let ?sha = "''abc1230000000000000000000000000000000000''"
  have sel: "Rev dep_none = []" "Tag dep_none = []" "Branch dep_none = []"
    "\<not> UseLatestCommit dep_none" "Version dep_none = []"
    by (simp_all add: dep_none_def)
  have r1: "getLatestReleaseTag world_no_release ''owner'' ''repo'' = Inl (Error ''no releases found'')"
    and r2: "getLatestReleaseTag world_master_only ''owner'' ''repo'' = Inl (Error ''no releases found'')"
    and r3: "getLatestReleaseTag (world_release release_stable) ''owner'' ''repo'' = Inr ''v1.0.0''"
    by code_simp+
  have m1: "git_Output world_no_release
        [''ls-remote'', repoURL_of ''owner'' ''repo'', ''refs/heads/main'']
      = Inr (?sha @ [CHR 0x09] @ ''refs/heads/main'' @ [CHR 0x0A])"
    and f1: "Fields (?sha @ [CHR 0x09] @ ''refs/heads/main'' @ [CHR 0x0A]) = [?sha, ''refs/heads/main'']"
    and m2: "git_Output world_master_only
        [''ls-remote'', repoURL_of ''owner'' ''repo'', ''refs/heads/main''] = Inr []"
    and m3: "git_Output world_master_only
        [''ls-remote'', repoURL_of ''owner'' ''repo'', ''refs/heads/master'']
      = Inr (?sha @ [CHR 0x09] @ ''refs/heads/master'' @ [CHR 0x0A])"
    and f3: "Fields (?sha @ [CHR 0x09] @ ''refs/heads/master'' @ [CHR 0x0A]) = [?sha, ''refs/heads/master'']"
    by code_simp+
  note t1 = no_selector_resolution [OF sel, of world_no_release "''owner''" "''repo''"]
  note t2 = no_selector_resolution [OF sel, of world_master_only "''owner''" "''repo''"]
  note t3 = no_selector_resolution [OF sel, of "world_release release_stable" "''owner''" "''repo''"]
  have c1: "determineRefWithValidation world_no_release ''owner'' ''repo'' dep_none
     = Inr (?sha, ?sha, ?sha)"
    using t1 r1 m1 f1 by blast
  have c2: "determineRefWithValidation world_master_only ''owner'' ''repo'' dep_none
     = Inr (?sha, ?sha, ?sha)"
  proof -
    have "Fields [] = []" by simp
    then show ?thesis using t2 r2 m2 m3 f3 by blast
  qed
  have c3: "determineRefWithValidation (world_release release_stable) ''owner'' ''repo'' dep_none
     = Inr (''v1.0.0'', ''v1.0.0'', [])"
    using t3 r3 by blast
  show ?thesis using c1 c2 c3 by blast
qed

section \<open>The cache\<close>

lemma entries_save [simp]: "entries (save w c) = entries c"
  by (simp add: save_def split: option.splits)

lemma cacheDir_save [simp]: "cacheDir (save w c) = cacheDir c"
  by (simp add: save_def split: option.splits)

text \<open>
  Claim C8. After \<open>Set(k, e)\<close>, a \<open>Get(k)\<close> made while the path of \<open>e\<close> exists returns \<open>e\<close>,
  reports it present and leaves the cache as it is. A \<open>Get(k)\<close> made while \<open>os.Stat\<close>
  reports that the path does not exist returns the zero entry, reports it absent and
  removes the key from the cache, the other keys untouched; after that every \<open>Get(k)\<close>,
  whatever the file system has become, reports the entry absent and changes nothing.
  (\<open>w0\<close>, \<open>w\<close> and \<open>w'\<close> are the worlds at the time of the three calls.)
\<close>

theorem cache_round_trip:
  "(\<not> os_Stat_IsNotExist w (Path e) \<longrightarrow>
      Get w (Set w0 c k e) k = ((e, True), Set w0 c k e))
   \<and> (os_Stat_IsNotExist w (Path e) \<longrightarrow>
        fst (Get w (Set w0 c k e) k) = (Entry_zero, False)
      \<and> entries (snd (Get w (Set w0 c k e) k)) = (entries (Set w0 c k e))(k := None)
      \<and> (\<forall>w'. Get w' (snd (Get w (Set w0 c k e) k)) k
                 = ((Entry_zero, False), snd (Get w (Set w0 c k e) k))))"
  by (simp add: Get_def Set_def)

theorem cache_round_trip_witness:
  "Get (world_offline\<lparr>os_Stat_IsNotExist := (\<lambda>p. False)\<rparr>)
       (Set world_offline cache_empty ''owner-repo-tag-v1.0.0'' entry_example)
       ''owner-repo-tag-v1.0.0''
      = ((entry_example, True), Set world_offline cache_empty ''owner-repo-tag-v1.0.0'' entry_example)
   \<and> fst (Get world_offline
            (Set world_offline cache_empty ''owner-repo-tag-v1.0.0'' entry_example)
            ''owner-repo-tag-v1.0.0'')
      = (Entry_zero, False)
   \<and> fst (Get (world_offline\<lparr>os_Stat_IsNotExist := (\<lambda>p. False)\<rparr>)
        (snd (Get world_offline
                (Set world_offline cache_empty ''owner-repo-tag-v1.0.0'' entry_example)
                ''owner-repo-tag-v1.0.0''))
        ''owner-repo-tag-v1.0.0'')
      = (Entry_zero, False)"
  using cache_round_trip [of "world_offline\<lparr>os_Stat_IsNotExist := (\<lambda>p. False)\<rparr>" entry_example
      world_offline cache_empty "''owner-repo-tag-v1.0.0''"]
    cache_round_trip [of world_offline entry_example world_offline cache_empty
      "''owner-repo-tag-v1.0.0''"]
  by (simp add: world_offline_def)

text \<open>
  Claim C10. The cache key joins owner, repository, selector kind and selector value
  with \<open>-\<close> and escapes nothing, so it is not injective: owner \<open>a\<close> with repository \<open>b-c\<close>
  and owner \<open>a-b\<close> with repository \<open>c\<close> have the same key under every selector, and an
  entry stored under the one is found under the other. Two keys can also agree across
  repositories and selector kinds at once.
\<close>

theorem cache_key_not_injective:
  "(''a'', ''b-c'') \<noteq> (''a-b'', ''c'')
   \<and> generateCacheKey ''a'' ''b-c'' dep = generateCacheKey ''a-b'' ''c'' dep
   \<and> entries (Set w c (generateCacheKey ''a'' ''b-c'' dep) e) (generateCacheKey ''a-b'' ''c'' dep)
       = Some e
   \<and> generateCacheKey ''o'' ''r'' (dep_none\<lparr>Tag := ''1-branch-x''\<rparr>)
       = generateCacheKey ''o'' ''r-tag-1'' (dep_none\<lparr>Branch := ''x''\<rparr>)"
  by (simp add: generateCacheKey_def Set_def dep_none_def Let_def)

theorem cache_key_not_injective_witness:
  "generateCacheKey ''a'' ''b-c'' (dep_none\<lparr>Version := ''^1.0.0''\<rparr>) = ''a-b-c-version-^1.0.0''
   \<and> generateCacheKey ''a-b'' ''c'' (dep_none\<lparr>Version := ''^1.0.0''\<rparr>) = ''a-b-c-version-^1.0.0''"
  using cache_key_not_injective [of "dep_none\<lparr>Version := ''^1.0.0''\<rparr>" world_offline cache_empty
      entry_example]
  by (simp add: generateCacheKey_def dep_none_def Let_def)

section \<open>The tree checksum\<close>

lemma Split_not_Nil [simp]: "Split s sep \<noteq> []"
  by (induction s) (auto split: list.splits)













lemma cleanStep_skip [simp]: "cleanStep r st [] = st" "cleanStep r st ''.'' = st"
  by (simp_all add: cleanStep_def)
























lemma listing_entry_simp [simp]: "listing_entry (p, rel, c) = (relPath rel, c)"
  by (simp add: listing_entry_def)
















lemma file_visits_append [simp]: "file_visits (xs @ ys) = file_visits xs @ file_visits ys"
  by (induction xs rule: file_visits.induct) (auto split: fs_node.splits)






lemma mset_concat_map:
  "mset (concat (map f ys)) = sum_mset (image_mset (\<lambda>y. mset (f y)) (mset ys))"
  by (induction ys) simp_all




text \<open>The two cases that the claim names: what lies below an entry \<open>.git\<close> is not
  listed, so a directory \<open>.git\<close> put into a directory leaves the listing as it is, and
  the listing of a directory has the same members in whatever order its entries come.\<close>

lemma files_below_prefix: "\<forall>x \<in> set (files_below r t). set r \<subseteq> set (fst x)"
proof (induction r t rule: files_below.induct)
  case (1 rel content)
  then show ?case by simp
next
  case (2 rel err)
  then show ?case by simp
next
  case (3 rel es)
  then show ?case by fastforce
qed

lemma below_git_unlisted:
  "filter (\<lambda>(rel, content). ''.git'' \<notin> set rel) (files_below (rel @ [''.git'']) t) = []"
  using files_below_prefix [of "rel @ [''.git'']" t] by (auto simp: filter_empty_conv)

lemma listing_injected_git:
  "relative_listing (Dir (es @ (''.git'', g) # es')) = relative_listing (Dir (es @ es'))"
  using below_git_unlisted [of "[]" g]
  by (simp add: relative_listing_def filter_concat comp_def)

lemma listing_any_order:
  assumes "mset es = mset es'"
  shows "mset (relative_listing (Dir es)) = mset (relative_listing (Dir es'))"
proof -
  have "mset (files_below [] (Dir es)) = mset (files_below [] (Dir es'))"
    using assms by (simp add: mset_concat_map)
  then show ?thesis
    by (simp add: relative_listing_def)
qed




section \<open>The consistency check\<close>

lemma lockPkgMap_iff: "lockPkgMap pkgs name \<longleftrightarrow> name \<in> Name ` set pkgs"
  by (induction pkgs) auto

lemma inManifestOnly_inject [simp]: "inManifestOnly a = inManifestOnly b \<longleftrightarrow> a = b"
  by (simp add: inManifestOnly_def)

lemma inLockOnly_inject [simp]: "inLockOnly a = inLockOnly b \<longleftrightarrow> a = b"
  by (simp add: inLockOnly_def)

lemma mset_manifest_side:
  assumes "distinct names" and "set names = M"
  shows "mset (map inManifestOnly (filter (\<lambda>name. \<not> lockPkgMap pkgs name) names))
     = image_mset inManifestOnly (mset_set (M - Name ` set pkgs))"
proof -
  have "mset (filter (\<lambda>name. \<not> lockPkgMap pkgs name) names)
      = mset_set (set (filter (\<lambda>name. \<not> lockPkgMap pkgs name) names))"
    using assms(1) by (metis distinct_filter mset_set_set)
  also have "set (filter (\<lambda>name. \<not> lockPkgMap pkgs name) names) = M - Name ` set pkgs"
    using assms(2) by (auto simp: lockPkgMap_iff)
  finally show ?thesis by simp
qed

lemma mset_lock_side:
  "mset (map (\<lambda>pkg. inLockOnly (Name pkg)) (filter (\<lambda>pkg. manifestDeps (Name pkg) = None) pkgs))
     = image_mset inLockOnly
         (filter_mset (\<lambda>name. name \<notin> dom manifestDeps) (mset (map Name pkgs)))"
  by (induction pkgs) (auto simp: domIff)

lemma mset_lock_side_distinct:
  assumes "distinct (map Name pkgs)"
  shows "filter_mset (\<lambda>name. name \<notin> M) (mset (map Name pkgs)) = mset_set (Name ` set pkgs - M)"
proof -
  have "mset (map Name pkgs) = mset_set (Name ` set pkgs)"
    using assms by (metis mset_set_set set_map)
  moreover have "{x \<in> Name ` set pkgs. x \<notin> M} = Name ` set pkgs - M" by auto
  ultimately show ?thesis
    by (simp add: filter_mset_mset_set)
qed

lemma inconsistencies_Nil_iff:
  assumes "set names = dom manifestDeps"
  shows "inconsistencies names manifestDeps pkgs = [] \<longleftrightarrow> dom manifestDeps = Name ` set pkgs"
proof -
  have "inconsistencies names manifestDeps pkgs = [] \<longleftrightarrow>
      (\<forall>name \<in> set names. lockPkgMap pkgs name) \<and> (\<forall>pkg \<in> set pkgs. manifestDeps (Name pkg) \<noteq> None)"
    by (auto simp: inconsistencies_def filter_empty_conv)
  also have "\<dots> \<longleftrightarrow> dom manifestDeps \<subseteq> Name ` set pkgs \<and> Name ` set pkgs \<subseteq> dom manifestDeps"
    using assms by (auto simp: lockPkgMap_iff domIff)
  finally show ?thesis by blast
qed

text \<open>
  Claim C9, as amended. Let \<open>names\<close> be the keys of the manifest's dependencies in the
  order of the loop, each once. The check reports no issue and no error exactly when
  the set of manifest names equals the set of lock-file names; otherwise it returns the
  error and the issues. The issues are one message per manifest name that no lock-file
  package bears, followed by one message per lock-file package whose name the manifest
  lacks: a name that occurs in several packages of the lock file is reported once per
  package. When no name occurs twice in the lock file, there is exactly one issue per
  name that is on one side only.
\<close>

theorem sync_issues:
  assumes "distinct names" and "set names = dom manifestDeps"
  shows "(checkSync names manifestDeps pkgs = ([], None)
            \<longleftrightarrow> dom manifestDeps = Name ` set pkgs)
    \<and> (dom manifestDeps \<noteq> Name ` set pkgs \<longrightarrow>
          checkSync names manifestDeps pkgs
            = (inconsistencies names manifestDeps pkgs,
               Some (Error ''dependencies are not synchronized'')))
    \<and> mset (inconsistencies names manifestDeps pkgs)
        = image_mset inManifestOnly (mset_set (dom manifestDeps - Name ` set pkgs))
          + image_mset inLockOnly
              (filter_mset (\<lambda>name. name \<notin> dom manifestDeps) (mset (map Name pkgs)))
    \<and> (distinct (map Name pkgs) \<longrightarrow>
          mset (inconsistencies names manifestDeps pkgs)
            = image_mset inManifestOnly (mset_set (dom manifestDeps - Name ` set pkgs))
              + image_mset inLockOnly (mset_set (Name ` set pkgs - dom manifestDeps)))"
proof -
  note nil = inconsistencies_Nil_iff [OF assms(2), of pkgs]
  have a: "checkSync names manifestDeps pkgs = ([], None)
            \<longleftrightarrow> dom manifestDeps = Name ` set pkgs"
    using nil by (auto simp: checkSync_def Let_def)
  have b: "dom manifestDeps \<noteq> Name ` set pkgs \<longrightarrow>
          checkSync names manifestDeps pkgs
            = (inconsistencies names manifestDeps pkgs,
               Some (Error ''dependencies are not synchronized''))"
    using nil by (auto simp: checkSync_def Let_def)
  have c: "mset (inconsistencies names manifestDeps pkgs)
        = image_mset inManifestOnly (mset_set (dom manifestDeps - Name ` set pkgs))
          + image_mset inLockOnly
              (filter_mset (\<lambda>name. name \<notin> dom manifestDeps) (mset (map Name pkgs)))"
    unfolding inconsistencies_def mset_append
    using mset_manifest_side [OF assms, of pkgs] mset_lock_side [of manifestDeps pkgs]
    by simp
  have d: "distinct (map Name pkgs) \<longrightarrow>
          mset (inconsistencies names manifestDeps pkgs)
            = image_mset inManifestOnly (mset_set (dom manifestDeps - Name ` set pkgs))
              + image_mset inLockOnly (mset_set (Name ` set pkgs - dom manifestDeps))"
    using c mset_lock_side_distinct [of pkgs "dom manifestDeps"] by simp
  show ?thesis using a b c d by blast
qed

text \<open>The example of the claim: the manifest declares \<open>A\<close> and \<open>B\<close>, the lock file holds
  \<open>B\<close> and \<open>C\<close>; in either order of the manifest's keys.\<close>

theorem sync_issues_witness:
  "mset (inconsistencies [''A'', ''B''] manifest_AB [pkg_named ''B'', pkg_named ''C''])
     = {#inManifestOnly ''A'', inLockOnly ''C''#}
   \<and> mset (inconsistencies [''B'', ''A''] manifest_AB [pkg_named ''B'', pkg_named ''C''])
     = {#inManifestOnly ''A'', inLockOnly ''C''#}
   \<and> checkSync [''A'', ''B''] manifest_AB [pkg_named ''B'', pkg_named ''C'']
     = ([inManifestOnly ''A'', inLockOnly ''C''], Some (Error ''dependencies are not synchronized''))
   \<and> checkSync [''A'', ''B''] manifest_AB [pkg_named ''B'', pkg_named ''A''] = ([], None)"
proof -
  have dom: "dom manifest_AB = {''A'', ''B''}"
    by (auto simp: manifest_AB_def)
  have n1: "distinct [''A'', ''B'']" "set [''A'', ''B''] = dom manifest_AB"
    and n2: "distinct [''B'', ''A'']" "set [''B'', ''A''] = dom manifest_AB"
    using dom by auto
  have names: "Name ` set [pkg_named ''B'', pkg_named ''C''] = {''B'', ''C''}"
    "Name ` set [pkg_named ''B'', pkg_named ''A''] = {''B'', ''A''}"
    "distinct (map Name [pkg_named ''B'', pkg_named ''C''])"
    by (simp_all add: pkg_named_def)
  have diff: "{''A'', ''B''} - {''B'', ''C''} = {''A''}" "{''B'', ''C''} - {''A'', ''B''} = {''C''}"
    by auto
  note t1 = sync_issues [OF n1, of "[pkg_named ''B'', pkg_named ''C'']"]
  note t2 = sync_issues [OF n2, of "[pkg_named ''B'', pkg_named ''C'']"]
  note t3 = sync_issues [OF n1, of "[pkg_named ''B'', pkg_named ''A'']"]
  have a: "mset (inconsistencies [''A'', ''B''] manifest_AB [pkg_named ''B'', pkg_named ''C''])
     = {#inManifestOnly ''A'', inLockOnly ''C''#}"
    using t1 [THEN conjunct2, THEN conjunct2, THEN conjunct2, rule_format, OF names(3)]
    unfolding names(1) dom diff by simp
  have b: "mset (inconsistencies [''B'', ''A''] manifest_AB [pkg_named ''B'', pkg_named ''C''])
     = {#inManifestOnly ''A'', inLockOnly ''C''#}"
    using t2 [THEN conjunct2, THEN conjunct2, THEN conjunct2, rule_format, OF names(3)]
    unfolding names(1) dom diff by simp
  have c: "checkSync [''A'', ''B''] manifest_AB [pkg_named ''B'', pkg_named ''C'']
     = ([inManifestOnly ''A'', inLockOnly ''C''], Some (Error ''dependencies are not synchronized''))"
    by (simp add: checkSync_def inconsistencies_def manifest_AB_def pkg_named_def Let_def)
  have d: "checkSync [''A'', ''B''] manifest_AB [pkg_named ''B'', pkg_named ''A''] = ([], None)"
    using t3 [THEN conjunct1] unfolding names(2) dom by auto
  show ?thesis using a b c d by simp
qed

text \<open>
  Claim C9 as it is written fails on a lock file that names a package twice: with an
  empty manifest and two packages \<open>C\<close>, the name \<open>C\<close> is the only one on one side, and
  two issues are reported for it.
\<close>

theorem sync_issues_counterexample:
  "Name ` set [pkg_named ''C'', pkg_named ''C''] - dom (Map.empty :: string \<rightharpoonup> Dependency) = {''C''}
   \<and> dom (Map.empty :: string \<rightharpoonup> Dependency) - Name ` set [pkg_named ''C'', pkg_named ''C''] = {}
   \<and> checkSync [] Map.empty [pkg_named ''C'', pkg_named ''C'']
       = ([inLockOnly ''C'', inLockOnly ''C''], Some (Error ''dependencies are not synchronized''))"
  by (simp add: checkSync_def inconsistencies_def pkg_named_def Let_def)

section \<open>The fetcher\<close>

lemma index_json_save: "index_json (save w c) = index_json c \<or> index_json (save w c) = entries c"
  by (simp add: save_def split: option.splits)

lemma Get_hit: "Get w c k = ((e, True), c1) \<Longrightarrow> c1 = c"
  by (auto simp: Get_def split: option.splits if_splits)

lemma Get_entries: "entries (snd (Get w c k)) \<subseteq>\<^sub>m entries c"
  by (auto simp: Get_def map_le_def split: option.splits if_splits)

lemma Get_index:
  "index_json (snd (Get w c k)) = index_json c
   \<or> index_json (snd (Get w c k)) = entries (snd (Get w c k))"
  using index_json_save [of w "c\<lparr>entries := (entries c)(k := None)\<rparr>"]
  by (auto simp: Get_def split: option.splits)

lemma Get_present: "snd (fst (Get w c k)) \<Longrightarrow> Get w c k = ((fst (fst (Get w c k)), True), c)"
  by (auto simp: Get_def split: option.splits if_splits)

text \<open>The six ways through \<open>FetchDependency\<close>: the locator does not parse; the cache
  has the entry; the reference, the clone or the checksum fails; all succeed.\<close>

lemma FetchDependency_cases:
  obtains
    (parse) err where "ParseRepoURL w (Git dep) = Inl err"
      and "\<exists>e. FetchDependency w c name dep = (Returns (Inl e), c)"
  | (hit) owner repo cached where "ParseRepoURL w (Git dep) = Inr (owner, repo)"
      and "Get w c (GenerateCacheKey w owner repo dep) = ((cached, True), c)"
      and "\<exists>r. FetchDependency w c name dep = (Returns (Inr r), c)"
  | (ref) owner repo err where "ParseRepoURL w (Git dep) = Inr (owner, repo)"
      and "\<not> snd (fst (Get w c (GenerateCacheKey w owner repo dep)))"
      and "determineRefWithValidation w owner repo dep = Inl err"
      and "\<exists>e. FetchDependency w c name dep
             = (Returns (Inl e), snd (Get w c (GenerateCacheKey w owner repo dep)))"
  | (clone) owner repo ref version sha err where "ParseRepoURL w (Git dep) = Inr (owner, repo)"
      and "\<not> snd (fst (Get w c (GenerateCacheKey w owner repo dep)))"
      and "determineRefWithValidation w owner repo dep = Inr (ref, version, sha)"
      and "cloneRepository w (snd (Get w c (GenerateCacheKey w owner repo dep))) owner repo ref
             = Inl err"
      and "\<exists>e. FetchDependency w c name dep
             = (Returns (Inl e), snd (Get w c (GenerateCacheKey w owner repo dep)))"
  | (sum) owner repo ref version sha path err where "ParseRepoURL w (Git dep) = Inr (owner, repo)"
      and "\<not> snd (fst (Get w c (GenerateCacheKey w owner repo dep)))"
      and "determineRefWithValidation w owner repo dep = Inr (ref, version, sha)"
      and "cloneRepository w (snd (Get w c (GenerateCacheKey w owner repo dep))) owner repo ref
             = Inr path"
      and "CalculateDirectoryChecksum w path = Inl err"
      and "\<exists>e. FetchDependency w c name dep
             = (Returns (Inl e), snd (Get w c (GenerateCacheKey w owner repo dep)))"
  | (ok) owner repo ref version sha path checksum where
          "ParseRepoURL w (Git dep) = Inr (owner, repo)"
      and "\<not> snd (fst (Get w c (GenerateCacheKey w owner repo dep)))"
      and "determineRefWithValidation w owner repo dep = Inr (ref, version, sha)"
      and "cloneRepository w (snd (Get w c (GenerateCacheKey w owner repo dep))) owner repo ref
             = Inr path"
      and "CalculateDirectoryChecksum w path = Inr checksum"
      and "FetchDependency w c name dep
             = (if sha \<noteq> [] \<and> length sha < 8 then Panics ''slice bounds out of range''
                else Returns (Inr \<lparr>Path_r = path, Checksum_r = checksum, Version_r = version, CommitSHA_r = sha\<rparr>),
                Set w (snd (Get w c (GenerateCacheKey w owner repo dep)))
                  (GenerateCacheKey w owner repo dep)
                  \<lparr>Path = path, Checksum = checksum, Version_e = version, CommitSHA = sha\<rparr>)"
proof (cases "ParseRepoURL w (Git dep)")
  case (Inl err)
  then have "\<exists>e. FetchDependency w c name dep = (Returns (Inl e), c)"
    by (simp add: FetchDependency_def)
  then show ?thesis using Inl parse by blast
next
  case (Inr or)
  obtain owner repo where or: "or = (owner, repo)" by (cases or)
  have p: "ParseRepoURL w (Git dep) = Inr (owner, repo)"
    using Inr or by simp
  let ?k = "GenerateCacheKey w owner repo dep"
  obtain cached present c1 where g: "Get w c ?k = ((cached, present), c1)"
    by (metis prod.exhaust)
  show ?thesis
  proof (cases present)
    case True
    then have c1: "c1 = c" using g Get_hit [of w c ?k cached c1] by simp
    have g': "Get w c ?k = ((cached, True), c)"
      using g True c1 by simp
    have "\<exists>r. FetchDependency w c name dep = (Returns (Inr r), c)"
      using p g' by (simp add: FetchDependency_def)
    then show ?thesis by (rule hit [OF p g'])
  next
    case False
    then have g': "Get w c ?k = ((cached, False), c1)"
      using g by simp
    have miss: "\<not> snd (fst (Get w c ?k))" and c1: "snd (Get w c ?k) = c1"
      using g' by simp_all
    show ?thesis
    proof (cases "determineRefWithValidation w owner repo dep")
      case (Inl err)
      then have "\<exists>e. FetchDependency w c name dep = (Returns (Inl e), c1)"
        using p g' by (simp add: FetchDependency_def)
      then show ?thesis
        using ref [OF p miss Inl] c1 by simp
    next
      case (Inr rvs)
      obtain ref version sha where rvs: "rvs = (ref, version, sha)" by (cases rvs)
      have d: "determineRefWithValidation w owner repo dep = Inr (ref, version, sha)"
        using Inr rvs by simp
      show ?thesis
      proof (cases "cloneRepository w c1 owner repo ref")
        case (Inl err)
        then have "\<exists>e. FetchDependency w c name dep = (Returns (Inl e), c1)"
          using p g' d by (simp add: FetchDependency_def)
        then show ?thesis
          using clone [OF p miss d] Inl c1 by simp
      next
        case (Inr path)
        note cl = Inr
        show ?thesis
        proof (cases "CalculateDirectoryChecksum w path")
          case (Inl err)
          then have "\<exists>e. FetchDependency w c name dep = (Returns (Inl e), c1)"
            using p g' d cl by (simp add: FetchDependency_def)
          then show ?thesis
            using sum [OF p miss d] cl Inl c1 by simp
        next
          case (Inr checksum)
          then have "FetchDependency w c name dep
             = (if sha \<noteq> [] \<and> length sha < 8 then Panics ''slice bounds out of range''
                else Returns (Inr \<lparr>Path_r = path, Checksum_r = checksum, Version_r = version, CommitSHA_r = sha\<rparr>),
                Set w c1 ?k \<lparr>Path = path, Checksum = checksum, Version_e = version, CommitSHA = sha\<rparr>)"
            using p g' d cl by (simp add: FetchDependency_def)
          then show ?thesis
            using ok [OF p miss d] cl Inr c1 by simp
        qed
      qed
    qed
  qed
qed

lemma Get_no_new_index:
  assumes "index_json (snd (Get w c k)) k' = Some e"
  shows "index_json c k' = Some e \<or> entries c k' = Some e"
proof -
  have "entries (snd (Get w c k)) k' = Some e \<Longrightarrow> entries c k' = Some e"
    using Get_entries [of w c k] by (auto simp: map_le_def dom_def)
  then show ?thesis
    using Get_index [of w c k] assms by auto
qed

lemma fetch_atomic_failed:
  assumes p: "ParseRepoURL w (Git dep) = Inr (owner, repo)"
    and f: "FetchDependency w c name dep
              = (Returns (Inl e0), snd (Get w c (GenerateCacheKey w owner repo dep)))"
  shows
  "(\<forall>err c'. FetchDependency w c name dep = (Returns (Inl err), c') \<longrightarrow>
       entries c' \<subseteq>\<^sub>m entries c
     \<and> (\<forall>k e. index_json c' k = Some e \<longrightarrow> index_json c k = Some e \<or> entries c k = Some e))
   \<and> (\<forall>res c' k e.
        FetchDependency w c name dep = (res, c') \<and> entries c' k = Some e \<and> entries c k \<noteq> Some e \<longrightarrow>
        (\<exists>owner repo ref version sha path checksum.
            ParseRepoURL w (Git dep) = Inr (owner, repo)
          \<and> k = GenerateCacheKey w owner repo dep
          \<and> determineRefWithValidation w owner repo dep = Inr (ref, version, sha)
          \<and> cloneRepository w (snd (Get w c k)) owner repo ref = Inr path
          \<and> CalculateDirectoryChecksum w path = Inr checksum
          \<and> e = \<lparr>Path = path, Checksum = checksum, Version_e = version, CommitSHA = sha\<rparr>
          \<and> res = (if sha \<noteq> [] \<and> length sha < 8 then Panics ''slice bounds out of range''
                   else Returns (Inr \<lparr>Path_r = path, Checksum_r = checksum,
                                  Version_r = version, CommitSHA_r = sha\<rparr>))))
   \<and> ((\<exists>err. ParseRepoURL w (Git dep) = Inl err) \<longrightarrow>
        (\<exists>err. FetchDependency w c name dep = (Returns (Inl err), c)))
   \<and> (\<forall>owner repo.
        ParseRepoURL w (Git dep) = Inr (owner, repo)
        \<and> \<not> snd (fst (Get w c (GenerateCacheKey w owner repo dep)))
        \<and> ((\<exists>err. determineRefWithValidation w owner repo dep = Inl err)
            \<or> (\<exists>ref version sha.
                  determineRefWithValidation w owner repo dep = Inr (ref, version, sha)
                  \<and> ((\<exists>err. cloneRepository w (snd (Get w c (GenerateCacheKey w owner repo dep)))
                               owner repo ref = Inl err)
                      \<or> (\<exists>path err.
                            cloneRepository w (snd (Get w c (GenerateCacheKey w owner repo dep)))
                               owner repo ref = Inr path
                            \<and> CalculateDirectoryChecksum w path = Inl err)))) \<longrightarrow>
        (\<exists>err. FetchDependency w c name dep
                 = (Returns (Inl err), snd (Get w c (GenerateCacheKey w owner repo dep)))))"
  (is "?A \<and> ?B \<and> ?C \<and> ?D")
proof -
  let ?c1 = "snd (Get w c (GenerateCacheKey w owner repo dep))"
  have le: "entries ?c1 \<subseteq>\<^sub>m entries c"
    by (rule Get_entries)
  have old: "entries c k = Some e" if "entries ?c1 k = Some e" for k e
    using le that by (auto simp: map_le_def dom_def)
  have idx: "index_json c k = Some e \<or> entries c k = Some e" if "index_json ?c1 k = Some e" for k e
    using that by (rule Get_no_new_index)
  have A: ?A
  proof (intro allI impI)
    fix err c' assume "FetchDependency w c name dep = (Returns (Inl err), c')"
    then have "c' = ?c1" using f by simp
    then show "entries c' \<subseteq>\<^sub>m entries c
       \<and> (\<forall>k e. index_json c' k = Some e \<longrightarrow> index_json c k = Some e \<or> entries c k = Some e)"
      using le idx by blast
  qed
  have B: ?B
  proof (intro allI impI)
    fix res c' k e
    assume h: "FetchDependency w c name dep = (res, c') \<and> entries c' k = Some e \<and> entries c k \<noteq> Some e"
    then have "c' = ?c1" using f by simp
    then have False using h old by blast
    then show "\<exists>owner repo ref version sha path checksum.
            ParseRepoURL w (Git dep) = Inr (owner, repo)
          \<and> k = GenerateCacheKey w owner repo dep
          \<and> determineRefWithValidation w owner repo dep = Inr (ref, version, sha)
          \<and> cloneRepository w (snd (Get w c k)) owner repo ref = Inr path
          \<and> CalculateDirectoryChecksum w path = Inr checksum
          \<and> e = \<lparr>Path = path, Checksum = checksum, Version_e = version, CommitSHA = sha\<rparr>
          \<and> res = (if sha \<noteq> [] \<and> length sha < 8 then Panics ''slice bounds out of range''
                   else Returns (Inr \<lparr>Path_r = path, Checksum_r = checksum,
                                  Version_r = version, CommitSHA_r = sha\<rparr>))"
      by blast
  qed
  have C: ?C using p by simp
  have D: ?D
  proof (intro allI impI)
    fix owner' repo'
    assume "ParseRepoURL w (Git dep) = Inr (owner', repo')
        \<and> \<not> snd (fst (Get w c (GenerateCacheKey w owner' repo' dep)))
        \<and> ((\<exists>err. determineRefWithValidation w owner' repo' dep = Inl err)
            \<or> (\<exists>ref version sha.
                  determineRefWithValidation w owner' repo' dep = Inr (ref, version, sha)
                  \<and> ((\<exists>err. cloneRepository w (snd (Get w c (GenerateCacheKey w owner' repo' dep)))
                               owner' repo' ref = Inl err)
                      \<or> (\<exists>path err.
                            cloneRepository w (snd (Get w c (GenerateCacheKey w owner' repo' dep)))
                               owner' repo' ref = Inr path
                            \<and> CalculateDirectoryChecksum w path = Inl err))))"
    then have "owner' = owner" and "repo' = repo" using p by simp_all
    then show "\<exists>err. FetchDependency w c name dep
                 = (Returns (Inl err), snd (Get w c (GenerateCacheKey w owner' repo' dep)))"
      using f by blast
  qed
  show ?thesis using A B C D by blast
qed

text \<open>
  Claim C2. Whatever the world, the cache and the dependency:
  \<^item> when \<open>FetchDependency\<close> returns an error, every entry of the cache afterwards was in
    the cache before, unchanged, and every entry of the index on disk was in the index
    or in the cache before (a stale entry may have been evicted by the lookup; nothing
    is written);
  \<^item> whenever the cache afterwards holds under some key an entry that it did not hold
    before, the locator was parsed, the key is the cache key of the dependency, the
    reference was determined, the clone succeeded, the checksum was computed, the entry
    records exactly that path, checksum, version and commit id, and the call returned
    the result with the same four values (or, for a commit id of one to seven bytes,
    panicked in the log message that follows the write);
  \<^item> when the locator does not parse, the call returns an error and the cache is as
    before; when, after a cache miss, the reference resolution, the clone or the
    checksum fails, the call returns an error and the cache is as the lookup left it.
  A result is either an error or a \<open>FetchResult\<close>, never both.
\<close>

theorem fetch_atomic:
  "(\<forall>err c'. FetchDependency w c name dep = (Returns (Inl err), c') \<longrightarrow>
       entries c' \<subseteq>\<^sub>m entries c
     \<and> (\<forall>k e. index_json c' k = Some e \<longrightarrow> index_json c k = Some e \<or> entries c k = Some e))
   \<and> (\<forall>res c' k e.
        FetchDependency w c name dep = (res, c') \<and> entries c' k = Some e \<and> entries c k \<noteq> Some e \<longrightarrow>
        (\<exists>owner repo ref version sha path checksum.
            ParseRepoURL w (Git dep) = Inr (owner, repo)
          \<and> k = GenerateCacheKey w owner repo dep
          \<and> determineRefWithValidation w owner repo dep = Inr (ref, version, sha)
          \<and> cloneRepository w (snd (Get w c k)) owner repo ref = Inr path
          \<and> CalculateDirectoryChecksum w path = Inr checksum
          \<and> e = \<lparr>Path = path, Checksum = checksum, Version_e = version, CommitSHA = sha\<rparr>
          \<and> res = (if sha \<noteq> [] \<and> length sha < 8 then Panics ''slice bounds out of range''
                   else Returns (Inr \<lparr>Path_r = path, Checksum_r = checksum,
                                  Version_r = version, CommitSHA_r = sha\<rparr>))))
   \<and> ((\<exists>err. ParseRepoURL w (Git dep) = Inl err) \<longrightarrow>
        (\<exists>err. FetchDependency w c name dep = (Returns (Inl err), c)))
   \<and> (\<forall>owner repo.
        ParseRepoURL w (Git dep) = Inr (owner, repo)
        \<and> \<not> snd (fst (Get w c (GenerateCacheKey w owner repo dep)))
        \<and> ((\<exists>err. determineRefWithValidation w owner repo dep = Inl err)
            \<or> (\<exists>ref version sha.
                  determineRefWithValidation w owner repo dep = Inr (ref, version, sha)
                  \<and> ((\<exists>err. cloneRepository w (snd (Get w c (GenerateCacheKey w owner repo dep)))
                               owner repo ref = Inl err)
                      \<or> (\<exists>path err.
                            cloneRepository w (snd (Get w c (GenerateCacheKey w owner repo dep)))
                               owner repo ref = Inr path
                            \<and> CalculateDirectoryChecksum w path = Inl err)))) \<longrightarrow>
        (\<exists>err. FetchDependency w c name dep
                 = (Returns (Inl err), snd (Get w c (GenerateCacheKey w owner repo dep)))))"
  (is "?A \<and> ?B \<and> ?C \<and> ?D")
proof (cases rule: FetchDependency_cases [of w dep c name])
  case (parse err)
  then show ?thesis by auto
next
  case (hit owner repo cached)
  then show ?thesis by auto
next
  case (ref owner repo err)
  then obtain e0 where "FetchDependency w c name dep
      = (Returns (Inl e0), snd (Get w c (GenerateCacheKey w owner repo dep)))" by blast
  then show ?thesis by (rule fetch_atomic_failed [OF ref(1)])
next
  case (clone owner repo ref version sha err)
  then obtain e0 where "FetchDependency w c name dep
      = (Returns (Inl e0), snd (Get w c (GenerateCacheKey w owner repo dep)))" by blast
  then show ?thesis by (rule fetch_atomic_failed [OF clone(1)])
next
  case (sum owner repo ref version sha path err)
  then obtain e0 where "FetchDependency w c name dep
      = (Returns (Inl e0), snd (Get w c (GenerateCacheKey w owner repo dep)))" by blast
  then show ?thesis by (rule fetch_atomic_failed [OF sum(1)])
next
  case (ok owner repo ref version sha path checksum)
  let ?key = "GenerateCacheKey w owner repo dep"
  let ?c1 = "snd (Get w c ?key)"
  have old: "\<forall>k e. entries ?c1 k = Some e \<longrightarrow> entries c k = Some e"
    using Get_entries [of w c ?key] by (auto simp: map_le_def dom_def)
  have new: "entries (Set w ?c1 ?key
        \<lparr>Path = path, Checksum = checksum, Version_e = version, CommitSHA = sha\<rparr>)
      = (entries ?c1)(?key \<mapsto> \<lparr>Path = path, Checksum = checksum, Version_e = version, CommitSHA = sha\<rparr>)"
    by (simp add: Set_def)
  have A: ?A using ok(6) by simp
  have B: ?B
  proof (intro allI impI)
    fix res c' k e
    assume h: "FetchDependency w c name dep = (res, c') \<and> entries c' k = Some e \<and> entries c k \<noteq> Some e"
    then have res: "res = (if sha \<noteq> [] \<and> length sha < 8 then Panics ''slice bounds out of range''
                   else Returns (Inr \<lparr>Path_r = path, Checksum_r = checksum,
                                  Version_r = version, CommitSHA_r = sha\<rparr>))"
      and c': "c' = Set w ?c1 ?key \<lparr>Path = path, Checksum = checksum, Version_e = version, CommitSHA = sha\<rparr>"
      using ok(6) by simp_all
    have k: "k = ?key"
      using h old unfolding c' new by (auto split: if_splits)
    then have e: "e = \<lparr>Path = path, Checksum = checksum, Version_e = version, CommitSHA = sha\<rparr>"
      using h unfolding c' new by simp
    show "\<exists>owner repo ref version sha path checksum.
            ParseRepoURL w (Git dep) = Inr (owner, repo)
          \<and> k = GenerateCacheKey w owner repo dep
          \<and> determineRefWithValidation w owner repo dep = Inr (ref, version, sha)
          \<and> cloneRepository w (snd (Get w c k)) owner repo ref = Inr path
          \<and> CalculateDirectoryChecksum w path = Inr checksum
          \<and> e = \<lparr>Path = path, Checksum = checksum, Version_e = version, CommitSHA = sha\<rparr>
          \<and> res = (if sha \<noteq> [] \<and> length sha < 8 then Panics ''slice bounds out of range''
                   else Returns (Inr \<lparr>Path_r = path, Checksum_r = checksum,
                                  Version_r = version, CommitSHA_r = sha\<rparr>))"
      using ok(1,3,4,5) k e res by blast
  qed
  have C: ?C using ok(1) by simp
  have D: ?D using ok(1,3,4,5) by auto
  show ?thesis using A B C D by blast
qed

text \<open>With the remote of the end-to-end example and a cache that holds one entry: a
  constraint that no tag matches fails and leaves the cache as it was, a locator that
  does not parse fails, and a fetch that succeeds writes the entry it returns.\<close>

theorem fetch_atomic_witness:
  "fst (FetchDependency world_semver cache_one ''dep'' (dep_none\<lparr>Version := ''^3.0.0''\<rparr>))
     = Returns (Inl (Error (''failed to determine reference for '' @ [CHR 0x27] @ ''dep'' @ [CHR 0x27]
             @ '': no matching tag found for version ^3.0.0 (tried: 3.0.0, v3.0.0)'')))
   \<and> entries (snd (FetchDependency world_semver cache_one ''dep'' (dep_none\<lparr>Version := ''^3.0.0''\<rparr>)))
       \<subseteq>\<^sub>m entries cache_one
   \<and> entries (snd (FetchDependency world_semver cache_one ''dep'' (dep_none\<lparr>Version := ''^3.0.0''\<rparr>)))
       ''owner-repo-version-^3.0.0'' = None
   \<and> (\<exists>err. FetchDependency world_semver cache_one ''dep'' (dep_none\<lparr>Git := ''nonsense''\<rparr>)
         = (Returns (Inl err), cache_one))
   \<and> (\<exists>checksum. fst (FetchDependency world_semver cache_one ''dep'' dep_caret)
         = Returns (Inr \<lparr>Path_r = ''/home/u/.yuki/cache/repos/owner/repo/1.0.0'',
                          Checksum_r = checksum, Version_r = ''^1.0.0'', CommitSHA_r = []\<rparr>)
       \<and> entries (snd (FetchDependency world_semver cache_one ''dep'' dep_caret))
           ''owner-repo-version-^1.0.0''
         = Some \<lparr>Path = ''/home/u/.yuki/cache/repos/owner/repo/1.0.0'', Checksum = checksum,
                  Version_e = ''^1.0.0'', CommitSHA = []\<rparr>)"
proof -
  let ?bad = "dep_none\<lparr>Version := ''^3.0.0''\<rparr>"
  let ?F = "FetchDependency world_semver cache_one ''dep'' ?bad"
  let ?G = "FetchDependency world_semver cache_one ''dep'' dep_caret"
  note t = fetch_atomic [of world_semver cache_one "''dep''" ?bad]
  note u = fetch_atomic [of world_semver cache_one "''dep''" "dep_none\<lparr>Git := ''nonsense''\<rparr>"]
  note v = fetch_atomic [of world_semver cache_one "''dep''" dep_caret]
  have a: "fst ?F = Returns (Inl (Error (''failed to determine reference for '' @ [CHR 0x27] @ ''dep'' @ [CHR 0x27]
             @ '': no matching tag found for version ^3.0.0 (tried: 3.0.0, v3.0.0)'')))"
    by code_simp
  then have "?F = (Returns (Inl (Error (''failed to determine reference for '' @ [CHR 0x27] @ ''dep'' @ [CHR 0x27]
             @ '': no matching tag found for version ^3.0.0 (tried: 3.0.0, v3.0.0)''))), snd ?F)"
    by (metis prod.collapse)
  then have b: "entries (snd ?F) \<subseteq>\<^sub>m entries cache_one"
    using t [THEN conjunct1] by blast
  have c: "entries (snd ?F) ''owner-repo-version-^3.0.0'' = None"
    by code_simp
  have "ParseRepoURL world_semver (Git (dep_none\<lparr>Git := ''nonsense''\<rparr>))
      = Inl (Error ''invalid repository format: nonsense'')"
    by code_simp
  then have d: "\<exists>err. FetchDependency world_semver cache_one ''dep'' (dep_none\<lparr>Git := ''nonsense''\<rparr>)
         = (Returns (Inl err), cache_one)"
    using u [THEN conjunct2, THEN conjunct2, THEN conjunct1] by blast
  have k: "entries (snd ?G) ''owner-repo-version-^1.0.0'' \<noteq> None"
    and old: "entries cache_one ''owner-repo-version-^1.0.0'' = None"
    and r: "map_outcome (map_sum id (\<lambda>r. (Path_r r, Version_r r, CommitSHA_r r))) (fst ?G)
              = Returns (Inr (''/home/u/.yuki/cache/repos/owner/repo/1.0.0'', ''^1.0.0'', []))"
    by code_simp+
  obtain e where e: "entries (snd ?G) ''owner-repo-version-^1.0.0'' = Some e"
    using k by blast
  have "?G = (fst ?G, snd ?G)" by simp
  then obtain path checksum version sha where
      pe: "e = \<lparr>Path = path, Checksum = checksum, Version_e = version, CommitSHA = sha\<rparr>"
      and pr: "fst ?G = (if sha \<noteq> [] \<and> length sha < 8 then Panics ''slice bounds out of range''
                   else Returns (Inr \<lparr>Path_r = path, Checksum_r = checksum,
                                  Version_r = version, CommitSHA_r = sha\<rparr>))"
    using v [THEN conjunct2, THEN conjunct1, rule_format,
        of "fst ?G" "snd ?G" "''owner-repo-version-^1.0.0''" e] e old
    by auto
  have "path = ''/home/u/.yuki/cache/repos/owner/repo/1.0.0''" "version = ''^1.0.0''" "sha = []"
    using r pr by (simp_all split: if_splits)
  then have g: "\<exists>checksum. fst ?G
         = Returns (Inr \<lparr>Path_r = ''/home/u/.yuki/cache/repos/owner/repo/1.0.0'',
                          Checksum_r = checksum, Version_r = ''^1.0.0'', CommitSHA_r = []\<rparr>)
       \<and> entries (snd ?G) ''owner-repo-version-^1.0.0''
         = Some \<lparr>Path = ''/home/u/.yuki/cache/repos/owner/repo/1.0.0'', Checksum = checksum,
                  Version_e = ''^1.0.0'', CommitSHA = []\<rparr>"
    using pe pr e by (intro exI [of _ checksum]) simp
  show ?thesis using a b c d g by blast
qed

text \<open>A revision of seven characters is cloned, hashed and stored; then the log message
  panics, and the call returns nothing.\<close>

lemma short_revision_panics:
  "fst (FetchDependency world_full_clone cache_empty ''dep'' dep_short_rev)
     = Panics ''slice bounds out of range''
   \<and> map_option (\<lambda>e. (Path e, Version_e e, CommitSHA e))
        (entries (snd (FetchDependency world_full_clone cache_empty ''dep'' dep_short_rev))
           ''owner-repo-rev-abc1234'')
     = Some (''/home/u/.yuki/cache/repos/owner/repo/abc1234'', ''abc1234'', ''abc1234'')"
  by code_simp

section \<open>The end-to-end example\<close>

text \<open>
  Claim C1 says that for the constraint \<open>^1.0.0\<close> and the remote tags \<open>1.0.0\<close>, \<open>1.5.0\<close>
  and \<open>v2.0.0\<close> the pipeline resolves the version \<open>1.5.0\<close> and retrieves the reference
  \<open>1.5.0\<close>. On that input the resolver's \<open>resolveVersion\<close> does find \<open>1.5.0\<close>, but the
  fetcher resolves the manifest entry again on its own: it probes the tag \<open>1.0.0\<close>, the
  constraint without its operator, finds it, clones it into the directory of the
  reference \<open>1.0.0\<close> and reports the constraint text \<open>^1.0.0\<close> as the version.
\<close>

theorem constraint_resolution_diverges:
  "resolveVersion world_semver ''owner'' ''repo'' dep_caret = Inr ''1.5.0''
   \<and> determineRefWithValidation world_semver ''owner'' ''repo'' dep_caret
       = Inr (''1.0.0'', ''^1.0.0'', [])
   \<and> map_outcome (map_sum id (\<lambda>r. (Path_r r, Version_r r, CommitSHA_r r)))
        (fst (FetchDependency world_semver cache_empty ''dep'' dep_caret))
       = Returns (Inr (''/home/u/.yuki/cache/repos/owner/repo/1.0.0'', ''^1.0.0'', []))"
  by code_simp

end
